theory Spec2Isabelle
  imports Main "HOL-Library.AList"
begin

section \<open>Values of the runtime: requests, responses, sessions, thrown values\<close>

text \<open>
  A \<open>Request\<close> as the authenticators read it: the method, the parsed URL
  (\<open>new URL(request.url)\<close>: its \<open>pathname\<close> and its \<open>searchParams\<close>), the headers
  and the body text. \<open>searchParams.get k\<close> and \<open>headers.get k\<close> return the first
  value stored under \<open>k\<close>, or \<open>null\<close>; header names are taken in the spelling the
  source uses.
\<close>

type_synonym Headers = "(string \<times> string) list"

record Request =
  req_method :: string
  req_pathname :: string
  req_searchParams :: "(string \<times> string) list"
  req_headers :: Headers
  req_body :: string

definition searchParams_get :: "Request \<Rightarrow> string \<Rightarrow> string option" where
  "searchParams_get request k = map_of (req_searchParams request) k"

definition headers_get :: "Headers \<Rightarrow> string \<Rightarrow> string option" where
  "headers_get hs k = map_of hs k"

definition headers_set :: "string \<Rightarrow> string \<Rightarrow> Headers \<Rightarrow> Headers" where
  "headers_set k v hs = AList.update k v hs"

record Response =
  status :: nat
  statusText :: string
  resp_headers :: Headers
  resp_body :: "string option"

text \<open>
  The \<open>Session\<close> of the API library, with the fields the authenticators read.
\<close>

record Session =
  session_id :: string
  session_shop :: string
  session_isOnline :: bool
  session_accessToken :: string

text \<open>
  The session token payload, with what the authenticators read of it: the
  hostname of its \<open>dest\<close> URL (\<open>new URL(payload.dest).hostname\<close>) and its \<open>sub\<close>.
\<close>

record JwtPayload =
  jwt_dest_hostname :: string
  jwt_sub :: string

text \<open>
  Everything a \<open>throw\<close> can carry: a \<open>Response\<close> (the terminal outcome of a
  request), or an instance of one of the error classes the source tests with
  \<open>instanceof\<close>. \<open>HttpResponseError\<close> carries \<open>response.code\<close> and
  \<open>response.statusText\<close>; \<open>OtherError\<close> stands for every other \<open>Error\<close>.
\<close>

datatype thrown =
    ThrownResponse Response
  | CookieNotFound
  | InvalidHmacError
  | InvalidOAuthError
  | InvalidJwtError
  | InvalidShopError
  | HttpResponseError nat string
  | GraphqlQueryError string
  | RangeError
  | TypeError
  | SyntaxError
  | OtherError string

text \<open>
  The calls to collaborators, in the order they are made. A run of an
  authenticator yields this trace together with its outcome.
\<close>

datatype event =
    EvRejectBotRequest
  | EvAuthCallback
  | EvStoreSession Session
  | EvLoadSession string
  | EvBeginAuth bool "string option"
  | EvRedirectWithExitIframe "string option"
  | EvRedirectToAuthPage "string option"
  | EvAfterAuth Session
  | EvGetEmbeddedAppUrl
  | EvGraphqlQuery Session
  | EvValidateSessionToken "string option"
  | EvGetCurrentId bool
  | EvEnsureAppIsEmbeddedIfRequired
  | EvEnsureSessionTokenSearchParamIfRequired
  | EvRedirectToShopifyOrAppRoot
  | EvWebhooksValidate
  | EvCreateOrLoadOfflineSession string
  | EvTokenExchange string string

subsection \<open>Control flow: return, throw, sequencing, try/catch\<close>

text \<open>
  An effectful computation is the trace of its collaborator calls and either the
  value it throws (\<open>Inl\<close>) or the value it returns (\<open>Inr\<close>).
\<close>

type_synonym 'a eff = "event list \<times> (thrown + 'a)"

definition ret :: "'a \<Rightarrow> 'a eff" where
  "ret x = ([], Inr x)"

definition throw :: "thrown \<Rightarrow> 'a eff" where
  "throw e = ([], Inl e)"

definition call :: "event \<Rightarrow> thrown + 'a \<Rightarrow> 'a eff" where
  "call ev r = ([ev], r)"

definition bind_eff :: "'a eff \<Rightarrow> ('a \<Rightarrow> 'b eff) \<Rightarrow> 'b eff" where
  "bind_eff m f =
     (case snd m of
        Inl e \<Rightarrow> (fst m, Inl e)
      | Inr x \<Rightarrow> (fst m @ fst (f x), snd (f x)))"

definition try_catch :: "'a eff \<Rightarrow> (thrown \<Rightarrow> 'a eff) \<Rightarrow> 'a eff" where
  "try_catch m h =
     (case snd m of
        Inl e \<Rightarrow> (fst m @ fst (h e), snd (h e))
      | Inr x \<Rightarrow> (fst m, Inr x))"

text \<open>JavaScript truthiness of a \<open>string | null | undefined\<close> value.\<close>

definition truthy :: "string option \<Rightarrow> bool" where
  "truthy v = (case v of None \<Rightarrow> False | Some s \<Rightarrow> s \<noteq> [])"

text \<open>
  \<open>new Response(body, {status, statusText, headers})\<close>, as the Fetch standard
  initialises a response. The status is an \<open>unsigned short\<close>: the number given is
  first reduced modulo 65536. A status outside 200..599 throws a \<open>RangeError\<close>;
  a status text that is not a reason phrase (horizontal tab, space, visible
  ASCII and bytes from 0x80 on) throws a \<open>TypeError\<close>; so does a body given with
  a null body status (101, 103, 204, 205, 304).
\<close>

definition reason_phrase :: "string \<Rightarrow> bool" where
  "reason_phrase txt =
     list_all (\<lambda>c. (of_char c :: nat) = 9 \<or> (32 \<le> (of_char c :: nat) \<and> (of_char c :: nat) \<noteq> 127))
       txt"

definition null_body_status :: "nat \<Rightarrow> bool" where
  "null_body_status st = (st = 101 \<or> st = 103 \<or> st = 204 \<or> st = 205 \<or> st = 304)"

definition new_Response :: "string option \<Rightarrow> nat \<Rightarrow> string \<Rightarrow> Headers \<Rightarrow> Response eff" where
  "new_Response b st txt hs =
     (let st' = st mod 65536 in
      if \<not> (200 \<le> st' \<and> st' \<le> 599) then throw RangeError
      else if \<not> reason_phrase txt then throw TypeError
      else if b \<noteq> None \<and> null_body_status st' then throw TypeError
      else ret \<lparr>status = st', statusText = txt, resp_headers = hs, resp_body = b\<rparr>)"

definition throw_new_Response :: "string option \<Rightarrow> nat \<Rightarrow> string \<Rightarrow> Headers \<Rightarrow> 'a eff" where
  "throw_new_Response b st txt hs =
     bind_eff (new_Response b st txt hs) (\<lambda>r. throw (ThrownResponse r))"

text \<open>
  \<open>redirect(url, {headers})\<close> of the Remix runtime: a 302 response whose
  \<open>Location\<close> header is the target, on top of the given headers.
\<close>

definition redirect :: "string \<Rightarrow> Headers \<Rightarrow> Response" where
  "redirect url hs =
     \<lparr>status = 302, statusText = [], resp_headers = headers_set ''Location'' url hs,
      resp_body = None\<rparr>"

section \<open>Configuration and collaborators\<close>

record SessionStorage =
  loadSession :: "string \<Rightarrow> thrown + Session option"
  storeSession :: "Session \<Rightarrow> thrown + bool"

record AuthConfig =
  auth_path :: string
  auth_callbackPath :: string
  auth_exitIframePath :: string
  auth_patchSessionTokenPath :: string
  auth_loginPath :: string

text \<open>
  \<open>AppConfig\<close>: \<open>hooks_afterAuth\<close> is \<open>config.hooks.afterAuth\<close>, absent or a
  function that may throw; \<open>session_isActive\<close> is \<open>session.isActive(config.scopes)\<close>;
  \<open>REAUTH_URL_HEADER\<close> is the constant of \<open>../const\<close>.
\<close>

record AppConfig =
  appUrl :: string
  apiKey :: string
  isEmbeddedApp :: bool
  useOnlineTokens :: bool
  auth :: AuthConfig
  sessionStorage :: SessionStorage
  hooks_afterAuth :: "(Session \<Rightarrow> thrown option) option"
  session_isActive :: "Session \<Rightarrow> bool"
  REAUTH_URL_HEADER :: string

text \<open>
  The result of \<open>api.webhooks.validate\<close> (spec 3 and 4.4): valid, with the shop
  domain, topic, API version, webhook id and optional sub-topic, or invalid with
  a reason. The authenticator tells the reason \<open>InvalidHmac\<close> from every other.
\<close>

datatype WebhookValidationErrorReason = InvalidHmac | OtherReason string

record WebhookFields =
  check_domain :: string
  check_topic :: string
  check_apiVersion :: string
  check_webhookId :: string
  check_subTopic :: "string option"

datatype WebhookValidation =
    WebhookValid WebhookFields
  | WebhookInvalid WebhookValidationErrorReason

text \<open>
  The \<open>Shopify\<close> API object (\<open>api\<close>): the library calls the authenticators make,
  each given by its result on the arguments it receives.
\<close>

record Shopify =
  api_config_isEmbeddedApp :: bool
  api_config_hostScheme :: string
  utils_sanitizeShop :: "string option \<Rightarrow> string option"
  utils_sanitizeHost :: "string option \<Rightarrow> string option"
  session_getOfflineId :: "string option \<Rightarrow> string"
  session_getJwtSessionId :: "string \<Rightarrow> string \<Rightarrow> string"
  session_getCurrentId :: "bool \<Rightarrow> Request \<Rightarrow> thrown + string option"
  auth_callback :: "Request \<Rightarrow> thrown + (Session \<times> Headers)"
  auth_getEmbeddedAppUrl :: "Request \<Rightarrow> thrown + string"
  auth_tokenExchange :: "string \<Rightarrow> string \<Rightarrow> thrown + Session"
  clients_Graphql_query :: "Session \<Rightarrow> thrown option"
  webhooks_validate :: "string \<Rightarrow> Request \<Rightarrow> WebhookValidation"

text \<open>
  The functions of the \<open>helpers\<close> modules, which the authenticators import and
  whose bodies are outside the files verified here. Each is given by what it
  produces on its arguments; the definitions below say how each one ends (by
  returning or by throwing).
\<close>

record Helpers =
  h_rejectBotRequest :: "Request \<Rightarrow> Response option"
  h_beginAuth :: "Request \<Rightarrow> bool \<Rightarrow> string option \<Rightarrow> Response"
  h_redirectWithExitIframe :: "Request \<Rightarrow> string option \<Rightarrow> Response"
  h_redirectToAuthPage :: "Request \<Rightarrow> string option \<Rightarrow> Response"
  h_validateSessionToken :: "string option \<Rightarrow> thrown + JwtPayload"
  h_getSessionTokenHeader :: "Request \<Rightarrow> string option"
  h_appBridgeUrl :: string
  h_createOrLoadOfflineSession :: "string \<Rightarrow> thrown + Session option"
  h_ensureAppIsEmbeddedIfRequired :: "Request \<Rightarrow> thrown option"
  h_ensureSessionTokenSearchParamIfRequired :: "Request \<Rightarrow> thrown option"
  h_redirectToShopifyOrAppRoot :: "Request \<Rightarrow> Headers \<Rightarrow> thrown"
  h_triggerAfterAuthHook :: "Session \<Rightarrow> Request \<Rightarrow> thrown option"

text \<open>
  Functions of the JavaScript runtime: \<open>JSON.parse\<close> (throws a \<open>SyntaxError\<close> on
  malformed text), \<open>decodeURIComponent\<close>, \<open>encodeURIComponent\<close>, the \<open>href\<close> of the
  request URL after its protocol is replaced, and \<open>URLSearchParams.toString\<close>.
\<close>

datatype Json = Json string

record JsRuntime =
  JSON_parse :: "string \<Rightarrow> thrown + Json"
  decodeURIComponent :: "string \<Rightarrow> thrown + string"
  encodeURIComponent :: "string \<Rightarrow> string"
  url_href_with_protocol :: "Request \<Rightarrow> string \<Rightarrow> string"
  URLSearchParams_toString :: "(string \<times> string) list \<Rightarrow> string"

record BasicParams =
  api :: Shopify
  config :: AppConfig
  helpers :: Helpers
  runtime :: JsRuntime

subsection \<open>Helpers\<close>

text \<open>
  Modelled from the spec: \<open>beginAuth\<close> of \<open>helpers\<close> is not among the verified
  files. The spec's \<open>begin(request, shop, isOnlinePhase)\<close> builds the authorize
  redirect and ends the request with it (a raised terminal response); the
  callers declare \<open>Promise<never>\<close> for the functions that end with it. So the
  helper never returns: it throws the redirect of the begin flow.
\<close>

definition beginAuth :: "BasicParams \<Rightarrow> Request \<Rightarrow> bool \<Rightarrow> string option \<Rightarrow> 'a eff" where
  "beginAuth p request isOnline shop =
     call (EvBeginAuth isOnline shop)
       (Inl (ThrownResponse (h_beginAuth (helpers p) request isOnline shop)))"

text \<open>
  Modelled from the spec: \<open>redirectWithExitIframe\<close> of \<open>helpers\<close> is not among the
  verified files. The spec's begin flow, inside an iframe, ends the request with
  a response that breaks out of the iframe; \<open>ensureInstalledOnShop\<close> calls the
  helper as a statement and then uses the session as defined, which needs the
  helper's type to be \<open>never\<close>. So the helper never returns: it throws the
  exit-iframe redirect.
\<close>

definition redirectWithExitIframe :: "BasicParams \<Rightarrow> Request \<Rightarrow> string option \<Rightarrow> 'a eff" where
  "redirectWithExitIframe p request shop =
     call (EvRedirectWithExitIframe shop)
       (Inl (ThrownResponse (h_redirectWithExitIframe (helpers p) request shop)))"

text \<open>
  Modelled from the spec: \<open>redirectToAuthPage\<close> of \<open>helpers\<close> is not among the
  verified files. A missing or inactive session redirects to the begin flow
  (spec 4.5, steps 7 and 8); the helper ends the request with that terminal
  response.
\<close>

definition redirectToAuthPage :: "BasicParams \<Rightarrow> Request \<Rightarrow> string option \<Rightarrow> 'a eff" where
  "redirectToAuthPage p request shop =
     call (EvRedirectToAuthPage shop)
       (Inl (ThrownResponse (h_redirectToAuthPage (helpers p) request shop)))"

text \<open>
  Modelled from the spec: \<open>rejectBotRequest\<close> of \<open>helpers\<close> is not among the
  verified files. The bot detector is \<open>(request) -> void | throws terminal
  response\<close>.
\<close>

definition rejectBotRequest :: "BasicParams \<Rightarrow> Request \<Rightarrow> unit eff" where
  "rejectBotRequest p request =
     call EvRejectBotRequest
       (case h_rejectBotRequest (helpers p) request of
          None \<Rightarrow> Inr ()
        | Some r \<Rightarrow> Inl (ThrownResponse r))"

text \<open>
  Modelled from the spec: \<open>validateSessionToken\<close> of \<open>helpers\<close> is not among the
  verified files. It is the session token validator of spec 4.1: the payload,
  or a failure. The argument is optional where the source passes a search
  parameter under a non-null assertion.
\<close>

definition validateSessionToken :: "BasicParams \<Rightarrow> string option \<Rightarrow> JwtPayload eff" where
  "validateSessionToken p token =
     call (EvValidateSessionToken token) (h_validateSessionToken (helpers p) token)"

text \<open>
  Modelled from the spec: \<open>getSessionTokenHeader\<close> of \<open>helpers\<close> is not among the
  verified files. It reads the session token of the \<open>Authorization: Bearer\<close>
  header, \<open>undefined\<close> when the request has none.
\<close>

definition getSessionTokenHeader :: "BasicParams \<Rightarrow> Request \<Rightarrow> string option" where
  "getSessionTokenHeader p request = h_getSessionTokenHeader (helpers p) request"

text \<open>
  Modelled from the spec: \<open>createOrLoadOfflineSession\<close> of \<open>helpers\<close> is not among
  the verified files. It looks up the offline session of a shop: a session,
  \<open>undefined\<close> when none is found, or a failure of the storage.
\<close>

definition createOrLoadOfflineSession :: "string \<Rightarrow> BasicParams \<Rightarrow> Session option eff" where
  "createOrLoadOfflineSession shop p =
     call (EvCreateOrLoadOfflineSession shop) (h_createOrLoadOfflineSession (helpers p) shop)"

text \<open>
  The admin API handle built for a session (\<open>adminClientFactory\<close>,
  \<open>createAdminApiContext\<close>): a value bound to that session.
\<close>

datatype AdminApiContext = AdminApiContext Session

definition adminClientFactory :: "BasicParams \<Rightarrow> Session \<Rightarrow> AdminApiContext" where
  "adminClientFactory p session = AdminApiContext session"

section \<open>Webhook authentication (\<open>webhooks/authenticate.ts\<close>)\<close>

record WebhookContext =
  wh_apiVersion :: string
  wh_shop :: string
  wh_topic :: string
  wh_webhookId :: string
  wh_payload :: Json
  wh_subTopic :: "string option"
  wh_session :: "Session option"
  wh_admin :: "AdminApiContext option"

text \<open>
  \<open>getSessionFromTokenExchange\<close>: the inner \<open>try\<close> swallows a failure of
  \<open>storeSession\<close>; the outer \<open>catch\<close> turns \<open>InvalidJwtError\<close> and
  \<open>InvalidShopError\<close> into a 400 response and every other thrown value into
  \<open>undefined\<close>.
\<close>

definition getSessionFromTokenExchange ::
  "BasicParams \<Rightarrow> string \<Rightarrow> string \<Rightarrow> Session option eff" where
  "getSessionFromTokenExchange p idToken shop =
     try_catch
       (bind_eff (call (EvTokenExchange shop idToken) (auth_tokenExchange (api p) shop idToken))
          (\<lambda>session.
             bind_eff
               (try_catch
                  (bind_eff
                     (call (EvStoreSession session)
                        (storeSession (sessionStorage (config p)) session))
                     (\<lambda>_. ret ()))
                  (\<lambda>error. ret ()))
               (\<lambda>_. ret (Some session))))
       (\<lambda>error.
          if error = InvalidJwtError \<or> error = InvalidShopError
          then throw_new_Response None 400 ''Bad Request'' []
          else ret None)"

definition authenticate :: "BasicParams \<Rightarrow> Request \<Rightarrow> WebhookContext eff" where
  "authenticate p request =
     (if req_method request \<noteq> ''POST''
      then throw_new_Response None 405 ''Method not allowed'' []
      else
        let rawBody = req_body request in
        bind_eff (call EvWebhooksValidate (Inr (webhooks_validate (api p) rawBody request)))
          (\<lambda>check.
             case check of
               WebhookInvalid reason \<Rightarrow>
                 (if reason = InvalidHmac
                  then throw_new_Response None 401 ''Unauthorized'' []
                  else throw_new_Response None 400 ''Bad Request'' [])
             | WebhookValid c \<Rightarrow>
                 bind_eff (createOrLoadOfflineSession (check_domain c) p)
                   (\<lambda>session0.
                      bind_eff
                        (if session0 = None \<and> check_topic c \<noteq> ''SHOP_REDACT''
                         then
                           (case getSessionTokenHeader p request of
                              None \<Rightarrow> ret session0
                            | Some idToken \<Rightarrow>
                                if idToken \<noteq> []
                                then getSessionFromTokenExchange p idToken (check_domain c)
                                else ret session0)
                         else ret session0)
                        (\<lambda>session.
                           bind_eff (([], JSON_parse (runtime p) rawBody))
                             (\<lambda>payload.
                                let webhookContext =
                                  \<lparr>wh_apiVersion = check_apiVersion c,
                                   wh_shop = check_domain c,
                                   wh_topic = check_topic c,
                                   wh_webhookId = check_webhookId c,
                                   wh_payload = payload,
                                   wh_subTopic =
                                     (if truthy (check_subTopic c) then check_subTopic c else None),
                                   wh_session = None,
                                   wh_admin = None\<rparr>
                                in
                                  case session of
                                    Some s \<Rightarrow>
                                      ret (webhookContext
                                            \<lparr>wh_session := Some s,
                                             wh_admin := Some (adminClientFactory p s)\<rparr>)
                                  | None \<Rightarrow> ret webhookContext)))))"

section \<open>Admin authentication, class \<open>AuthStrategy\<close> (\<open>auth/admin/authenticate.ts\<close>)\<close>

record SessionContext =
  sc_session :: Session
  sc_token :: "JwtPayload option"

datatype BillingContext = BillingContext Session

record AdminContext =
  ctx_admin :: AdminApiContext
  ctx_billing :: BillingContext
  ctx_session :: Session
  ctx_sessionToken :: "JwtPayload option"

definition SESSION_TOKEN_PARAM :: string where
  "SESSION_TOKEN_PARAM = ''id_token''"

text \<open>\<open>`${v}`\<close> for a \<open>string | null\<close> value.\<close>

definition js_String :: "string option \<Rightarrow> string" where
  "js_String v = (case v of None \<Rightarrow> ''null'' | Some s \<Rightarrow> s)"

definition is_Response :: "thrown \<Rightarrow> bool" where
  "is_Response error = (case error of ThrownResponse r \<Rightarrow> True | _ \<Rightarrow> False)"

definition AuthStrategy_createAdminApiContext ::
  "BasicParams \<Rightarrow> Request \<Rightarrow> Session \<Rightarrow> AdminApiContext" where
  "AuthStrategy_createAdminApiContext p request session = AdminApiContext session"

definition AuthStrategy_createBillingContext ::
  "BasicParams \<Rightarrow> Request \<Rightarrow> Session \<Rightarrow> BillingContext" where
  "AuthStrategy_createBillingContext p request session = BillingContext session"

definition AuthStrategy_respondToOptionsRequest :: "Request \<Rightarrow> unit eff" where
  "AuthStrategy_respondToOptionsRequest request =
     (if req_method request = ''OPTIONS''
      then throw_new_Response None 204 [] [(''Access-Control-Max-Age'', ''7200'')]
      else ret ())"

text \<open>
  \<open>ensureCORSHeaders\<close> sets the headers on the response object it is given; the
  model returns the response as it is afterwards.
\<close>

definition AuthStrategy_ensureCORSHeaders ::
  "BasicParams \<Rightarrow> Request \<Rightarrow> Response \<Rightarrow> Response" where
  "AuthStrategy_ensureCORSHeaders p request response =
     (if headers_get (req_headers request) ''Origin'' \<noteq> Some (appUrl (config p))
      then response\<lparr>resp_headers :=
             headers_set ''Access-Control-Expose-Headers'' (REAUTH_URL_HEADER (config p))
               (headers_set ''Access-Control-Allow-Headers'' ''Authorization''
                  (headers_set ''Access-Control-Allow-Origin'' ''*''
                     (resp_headers response)))\<rparr>
      else response)"

text \<open>
  \<open>renderAppBridge\<close>: the HTML page with the bridge script, and the script that
  opens the destination at the top level when one is given. The layout
  whitespace of the template is left out of the body.
\<close>

definition AuthStrategy_renderAppBridge :: "BasicParams \<Rightarrow> string option \<Rightarrow> 'a eff" where
  "AuthStrategy_renderAppBridge p redirectTo =
     bind_eff
       (case redirectTo of
          None \<Rightarrow> ret []
        | Some target \<Rightarrow>
            if target = [] then ret []
            else
              bind_eff
                ([], decodeURIComponent (runtime p)
                       (if take 1 target = ''/'' then appUrl (config p) @ target else target))
                (\<lambda>redirectUrl.
                   ret (''<script>window.open('' @ [CHR 0x22] @ redirectUrl @ [CHR 0x22]
                        @ '', '' @ [CHR 0x22] @ ''_top'' @ [CHR 0x22] @ '')</script>'')))
       (\<lambda>redirectToScript.
          throw_new_Response
            (Some (''<script data-api-key='' @ [CHR 0x22] @ apiKey (config p) @ [CHR 0x22]
                   @ '' src='' @ [CHR 0x22] @ h_appBridgeUrl (helpers p) @ [CHR 0x22]
                   @ ''></script>'' @ redirectToScript))
            200 [] [(''content-type'', ''text/html;charset=utf-8'')])"

definition AuthStrategy_ensureValidShopParam :: "BasicParams \<Rightarrow> Request \<Rightarrow> string eff" where
  "AuthStrategy_ensureValidShopParam p request =
     (case utils_sanitizeShop (api p) (searchParams_get request ''shop'') of
        None \<Rightarrow> throw_new_Response (Some ''Shop param is invalid'') 400 [] []
      | Some shop \<Rightarrow>
          if shop = [] then throw_new_Response (Some ''Shop param is invalid'') 400 [] []
          else ret shop)"

definition AuthStrategy_handleAuthBeginRequest :: "BasicParams \<Rightarrow> Request \<Rightarrow> 'a eff" where
  "AuthStrategy_handleAuthBeginRequest p request =
     bind_eff (AuthStrategy_ensureValidShopParam p request)
       (\<lambda>shop.
          if isEmbeddedApp (config p)
             \<and> headers_get (req_headers request) ''Sec-Fetch-Dest'' = Some ''iframe''
          then redirectWithExitIframe p request (Some shop)
          else beginAuth p request False (Some shop))"

definition AuthStrategy_redirectToShopifyOrAppRoot ::
  "BasicParams \<Rightarrow> Request \<Rightarrow> Headers \<Rightarrow> 'a eff" where
  "AuthStrategy_redirectToShopifyOrAppRoot p request responseHeaders =
     (let host = utils_sanitizeHost (api p) (searchParams_get request ''host'');
          shop = utils_sanitizeShop (api p) (searchParams_get request ''shop'')
      in
        bind_eff
          (if api_config_isEmbeddedApp (api p)
           then call EvGetEmbeddedAppUrl (auth_getEmbeddedAppUrl (api p) request)
           else ret (''/?shop='' @ js_String shop @ ''&host=''
                     @ encodeURIComponent (runtime p) (js_String host)))
          (\<lambda>redirectUrl. throw (ThrownResponse (redirect redirectUrl responseHeaders))))"

text \<open>
  \<open>handleAuthCallbackRequest\<close>, in three parts: the body of its \<open>try\<close>, its
  \<open>catch\<close> clause, and the method that validates the shop and runs the two.
\<close>

definition AuthStrategy_handleAuthCallbackRequest_try ::
  "BasicParams \<Rightarrow> Request \<Rightarrow> string \<Rightarrow> 'a eff" where
  "AuthStrategy_handleAuthCallbackRequest_try p request shop =
     bind_eff (call EvAuthCallback (auth_callback (api p) request))
       (\<lambda>(session, responseHeaders).
          bind_eff
            (call (EvStoreSession session) (storeSession (sessionStorage (config p)) session))
            (\<lambda>_.
               bind_eff
                 (if useOnlineTokens (config p) \<and> \<not> session_isOnline session
                  then beginAuth p request True (Some shop)
                  else ret ())
                 (\<lambda>_.
                    bind_eff
                      (case hooks_afterAuth (config p) of
                         None \<Rightarrow> ret ()
                       | Some afterAuth \<Rightarrow>
                           call (EvAfterAuth session)
                             (case afterAuth session of None \<Rightarrow> Inr () | Some e \<Rightarrow> Inl e))
                      (\<lambda>_. AuthStrategy_redirectToShopifyOrAppRoot p request responseHeaders))))"

definition AuthStrategy_handleAuthCallbackRequest_catch ::
  "BasicParams \<Rightarrow> Request \<Rightarrow> thrown \<Rightarrow> 'a eff" where
  "AuthStrategy_handleAuthCallbackRequest_catch p request error =
     (if is_Response error then throw error
      else if error = CookieNotFound then AuthStrategy_handleAuthBeginRequest p request
      else if error = InvalidHmacError \<or> error = InvalidOAuthError
      then throw_new_Response None 400 ''Invalid OAuth Request'' []
      else throw_new_Response None 500 ''Internal Server Error'' [])"

definition AuthStrategy_handleAuthCallbackRequest :: "BasicParams \<Rightarrow> Request \<Rightarrow> 'a eff" where
  "AuthStrategy_handleAuthCallbackRequest p request =
     bind_eff (AuthStrategy_ensureValidShopParam p request)
       (\<lambda>shop.
          try_catch (AuthStrategy_handleAuthCallbackRequest_try p request shop)
            (AuthStrategy_handleAuthCallbackRequest_catch p request))"

definition AuthStrategy_validateUrlParams :: "BasicParams \<Rightarrow> Request \<Rightarrow> unit eff" where
  "AuthStrategy_validateUrlParams p request =
     (if \<not> truthy (utils_sanitizeShop (api p) (searchParams_get request ''shop''))
      then throw (ThrownResponse (redirect (auth_loginPath (auth (config p))) []))
      else if isEmbeddedApp (config p)
              \<and> \<not> truthy (utils_sanitizeHost (api p) (searchParams_get request ''host''))
      then throw (ThrownResponse (redirect (auth_loginPath (auth (config p))) []))
      else ret ())"

definition AuthStrategy_testSession :: "BasicParams \<Rightarrow> Session \<Rightarrow> unit eff" where
  "AuthStrategy_testSession p session =
     call (EvGraphqlQuery session)
       (case clients_Graphql_query (api p) session of None \<Rightarrow> Inr () | Some e \<Rightarrow> Inl e)"

text \<open>
  The \<open>catch\<close> clause of the liveness probe in \<open>ensureInstalledOnShop\<close>. A thrown
  value that is neither an \<open>HttpResponseError\<close> nor a \<open>GraphqlQueryError\<close> leaves
  the clause without a \<open>throw\<close>.
\<close>

definition AuthStrategy_ensureInstalledOnShop_catch ::
  "BasicParams \<Rightarrow> Request \<Rightarrow> string option \<Rightarrow> thrown \<Rightarrow> unit eff" where
  "AuthStrategy_ensureInstalledOnShop_catch p request shop error =
     (case error of
        HttpResponseError code txt \<Rightarrow>
          if code = 401 then beginAuth p request False shop
          else throw_new_Response None code txt []
      | GraphqlQueryError message \<Rightarrow>
          throw_new_Response None 500 ''Internal Server Error'' []
      | _ \<Rightarrow> ret ())"

definition AuthStrategy_ensureInstalledOnShop :: "BasicParams \<Rightarrow> Request \<Rightarrow> unit eff" where
  "AuthStrategy_ensureInstalledOnShop p request =
     (let shop = searchParams_get request ''shop'';
          isEmbedded = (searchParams_get request ''embedded'' = Some ''1'')
      in
        bind_eff
          (call (EvLoadSession (session_getOfflineId (api p) shop))
             (loadSession (sessionStorage (config p)) (session_getOfflineId (api p) shop)))
          (\<lambda>loaded.
             bind_eff
               (case loaded of
                  None \<Rightarrow>
                    if isEmbedded then redirectWithExitIframe p request shop
                    else beginAuth p request False shop
                | Some offlineSession \<Rightarrow> ret offlineSession)
               (\<lambda>offlineSession.
                  if isEmbeddedApp (config p) \<and> \<not> isEmbedded
                  then try_catch (AuthStrategy_testSession p offlineSession)
                         (AuthStrategy_ensureInstalledOnShop_catch p request shop)
                  else ret ())))"

definition AuthStrategy_ensureAppIsEmbeddedIfRequired :: "BasicParams \<Rightarrow> Request \<Rightarrow> unit eff" where
  "AuthStrategy_ensureAppIsEmbeddedIfRequired p request =
     (if api_config_isEmbeddedApp (api p) \<and> searchParams_get request ''embedded'' \<noteq> Some ''1''
      then AuthStrategy_redirectToShopifyOrAppRoot p request []
      else ret ())"

definition AuthStrategy_redirectToBouncePage :: "BasicParams \<Rightarrow> Request \<Rightarrow> 'a eff" where
  "AuthStrategy_redirectToBouncePage p request =
     (let href = url_href_with_protocol (runtime p) request (api_config_hostScheme (api p) @ '':'');
          params = AList.update ''shopify-reload'' href (req_searchParams request)
      in throw (ThrownResponse
           (redirect (auth_patchSessionTokenPath (auth (config p)) @ ''?''
                      @ URLSearchParams_toString (runtime p) params) [])))"

definition AuthStrategy_ensureSessionTokenSearchParamIfRequired ::
  "BasicParams \<Rightarrow> Request \<Rightarrow> unit eff" where
  "AuthStrategy_ensureSessionTokenSearchParamIfRequired p request =
     (if api_config_isEmbeddedApp (api p)
         \<and> \<not> truthy (searchParams_get request SESSION_TOKEN_PARAM)
      then AuthStrategy_redirectToBouncePage p request
      else ret ())"

definition AuthStrategy_loadSession ::
  "BasicParams \<Rightarrow> Request \<Rightarrow> string option \<Rightarrow> string \<Rightarrow> Session eff" where
  "AuthStrategy_loadSession p request shop sessionId =
     bind_eff
       (call (EvLoadSession sessionId) (loadSession (sessionStorage (config p)) sessionId))
       (\<lambda>loaded.
          case loaded of
            None \<Rightarrow> redirectToAuthPage p request shop
          | Some session \<Rightarrow>
              if \<not> session_isActive (config p) session
              then redirectToAuthPage p request shop
              else ret session)"

definition AuthStrategy_validateAuthenticatedSession ::
  "BasicParams \<Rightarrow> Request \<Rightarrow> JwtPayload \<Rightarrow> SessionContext eff" where
  "AuthStrategy_validateAuthenticatedSession p request payload =
     (let shop = jwt_dest_hostname payload;
          sessionId =
            (if useOnlineTokens (config p)
             then session_getJwtSessionId (api p) shop (jwt_sub payload)
             else session_getOfflineId (api p) (Some shop))
      in
        bind_eff (AuthStrategy_loadSession p request (Some shop) sessionId)
          (\<lambda>session. ret \<lparr>sc_session = session, sc_token = Some payload\<rparr>))"

definition AuthStrategy_ensureSessionExists :: "BasicParams \<Rightarrow> Request \<Rightarrow> SessionContext eff" where
  "AuthStrategy_ensureSessionExists p request =
     (let shop = searchParams_get request ''shop'';
          searchParamSessionToken = searchParams_get request SESSION_TOKEN_PARAM
      in
        if api_config_isEmbeddedApp (api p)
        then
          bind_eff (validateSessionToken p searchParamSessionToken)
            (\<lambda>sessionToken. AuthStrategy_validateAuthenticatedSession p request sessionToken)
        else
          bind_eff
            (call (EvGetCurrentId (useOnlineTokens (config p)))
               (session_getCurrentId (api p) (useOnlineTokens (config p)) request))
            (\<lambda>sessionId.
               case sessionId of
                 None \<Rightarrow> beginAuth p request False shop
               | Some sid \<Rightarrow>
                   if sid = [] then beginAuth p request False shop
                   else
                     bind_eff (AuthStrategy_loadSession p request shop sid)
                       (\<lambda>session. ret \<lparr>sc_session = session, sc_token = None\<rparr>)))"

definition AuthStrategy_authenticateAndGetSessionContext ::
  "BasicParams \<Rightarrow> Request \<Rightarrow> SessionContext eff" where
  "AuthStrategy_authenticateAndGetSessionContext p request =
     (let isPatchSessionToken =
            (req_pathname request = auth_patchSessionTokenPath (auth (config p)));
          isExitIframe = (req_pathname request = auth_exitIframePath (auth (config p)));
          isAuthRequest = (req_pathname request = auth_path (auth (config p)));
          isAuthCallbackRequest = (req_pathname request = auth_callbackPath (auth (config p)));
          sessionTokenHeader = getSessionTokenHeader p request
      in
        if isPatchSessionToken then AuthStrategy_renderAppBridge p None
        else if isExitIframe
        then AuthStrategy_renderAppBridge p (searchParams_get request ''exitIframe'')
        else if isAuthCallbackRequest then AuthStrategy_handleAuthCallbackRequest p request
        else if isAuthRequest then AuthStrategy_handleAuthBeginRequest p request
        else if truthy sessionTokenHeader
        then
          bind_eff (validateSessionToken p sessionTokenHeader)
            (\<lambda>sessionToken. AuthStrategy_validateAuthenticatedSession p request sessionToken)
        else
          bind_eff (AuthStrategy_validateUrlParams p request)
            (\<lambda>_. bind_eff (AuthStrategy_ensureInstalledOnShop p request)
            (\<lambda>_. bind_eff (AuthStrategy_ensureAppIsEmbeddedIfRequired p request)
            (\<lambda>_. bind_eff (AuthStrategy_ensureSessionTokenSearchParamIfRequired p request)
            (\<lambda>_. AuthStrategy_ensureSessionExists p request)))))"

definition AuthStrategy_authenticateAdmin :: "BasicParams \<Rightarrow> Request \<Rightarrow> AdminContext eff" where
  "AuthStrategy_authenticateAdmin p request =
     bind_eff (rejectBotRequest p request)
       (\<lambda>_. bind_eff (AuthStrategy_respondToOptionsRequest request)
       (\<lambda>_. bind_eff
               (try_catch (AuthStrategy_authenticateAndGetSessionContext p request)
                  (\<lambda>errorOrResponse.
                     case errorOrResponse of
                       ThrownResponse response \<Rightarrow>
                         throw (ThrownResponse (AuthStrategy_ensureCORSHeaders p request response))
                     | _ \<Rightarrow> throw errorOrResponse))
       (\<lambda>sessionContext.
          let context =
                \<lparr>ctx_admin = AuthStrategy_createAdminApiContext p request (sc_session sessionContext),
                 ctx_billing = AuthStrategy_createBillingContext p request (sc_session sessionContext),
                 ctx_session = sc_session sessionContext,
                 ctx_sessionToken = None\<rparr>
          in
            if isEmbeddedApp (config p)
            then ret (context\<lparr>ctx_sessionToken := sc_token sessionContext\<rparr>)
            else ret context)))"

section \<open>Admin authentication, class \<open>AuthCodeFlowStrategy\<close> (\<open>strategies/auth-code-flow.ts\<close>)\<close>

text \<open>
  Modelled from the spec: \<open>ensureAppIsEmbeddedIfRequired\<close>,
  \<open>ensureSessionTokenSearchParamIfRequired\<close>, \<open>redirectToShopifyOrAppRoot\<close> and
  \<open>triggerAfterAuthHook\<close> of \<open>../helpers\<close> are not among the verified files. The
  first two return or end the request with a redirect (spec 4.5, step 8); the
  third ends the request with the redirect to the app root or the platform
  admin (spec 4.2) and never returns; the last runs the \<open>afterAuth\<close> hook, which
  may throw.
\<close>

definition ensureAppIsEmbeddedIfRequired :: "BasicParams \<Rightarrow> Request \<Rightarrow> unit eff" where
  "ensureAppIsEmbeddedIfRequired p request =
     call EvEnsureAppIsEmbeddedIfRequired
       (case h_ensureAppIsEmbeddedIfRequired (helpers p) request of
          None \<Rightarrow> Inr () | Some e \<Rightarrow> Inl e)"

definition ensureSessionTokenSearchParamIfRequired :: "BasicParams \<Rightarrow> Request \<Rightarrow> unit eff" where
  "ensureSessionTokenSearchParamIfRequired p request =
     call EvEnsureSessionTokenSearchParamIfRequired
       (case h_ensureSessionTokenSearchParamIfRequired (helpers p) request of
          None \<Rightarrow> Inr () | Some e \<Rightarrow> Inl e)"

definition redirectToShopifyOrAppRoot :: "Request \<Rightarrow> BasicParams \<Rightarrow> Headers \<Rightarrow> 'a eff" where
  "redirectToShopifyOrAppRoot request p responseHeaders =
     call EvRedirectToShopifyOrAppRoot
       (Inl (h_redirectToShopifyOrAppRoot (helpers p) request responseHeaders))"

definition triggerAfterAuthHook :: "BasicParams \<Rightarrow> Session \<Rightarrow> Request \<Rightarrow> unit eff" where
  "triggerAfterAuthHook p session request =
     call (EvAfterAuth session)
       (case h_triggerAfterAuthHook (helpers p) session request of
          None \<Rightarrow> Inr () | Some e \<Rightarrow> Inl e)"

definition AuthCodeFlowStrategy_handleAuthBeginRequest ::
  "BasicParams \<Rightarrow> Request \<Rightarrow> string \<Rightarrow> 'a eff" where
  "AuthCodeFlowStrategy_handleAuthBeginRequest p request shop =
     (if isEmbeddedApp (config p)
         \<and> headers_get (req_headers request) ''Sec-Fetch-Dest'' = Some ''iframe''
      then redirectWithExitIframe p request (Some shop)
      else beginAuth p request False (Some shop))"

definition AuthCodeFlowStrategy_oauthCallbackError ::
  "BasicParams \<Rightarrow> thrown \<Rightarrow> Request \<Rightarrow> string \<Rightarrow> Response eff" where
  "AuthCodeFlowStrategy_oauthCallbackError p error request shop =
     (if error = CookieNotFound then AuthCodeFlowStrategy_handleAuthBeginRequest p request shop
      else if error = InvalidHmacError \<or> error = InvalidOAuthError
      then new_Response None 400 ''Invalid OAuth Request'' []
      else new_Response None 500 ''Internal Server Error'' [])"

definition AuthCodeFlowStrategy_handleAuthCallbackRequest_try ::
  "BasicParams \<Rightarrow> Request \<Rightarrow> string \<Rightarrow> 'a eff" where
  "AuthCodeFlowStrategy_handleAuthCallbackRequest_try p request shop =
     bind_eff (call EvAuthCallback (auth_callback (api p) request))
       (\<lambda>(session, responseHeaders).
          bind_eff
            (call (EvStoreSession session) (storeSession (sessionStorage (config p)) session))
            (\<lambda>_.
               bind_eff
                 (if useOnlineTokens (config p) \<and> \<not> session_isOnline session
                  then beginAuth p request True (Some shop)
                  else ret ())
                 (\<lambda>_.
                    bind_eff (triggerAfterAuthHook p session request)
                      (\<lambda>_. redirectToShopifyOrAppRoot request p responseHeaders))))"

definition AuthCodeFlowStrategy_handleAuthCallbackRequest_catch ::
  "BasicParams \<Rightarrow> Request \<Rightarrow> string \<Rightarrow> thrown \<Rightarrow> 'a eff" where
  "AuthCodeFlowStrategy_handleAuthCallbackRequest_catch p request shop error =
     (if is_Response error then throw error
      else
        bind_eff (AuthCodeFlowStrategy_oauthCallbackError p error request shop)
          (\<lambda>response. throw (ThrownResponse response)))"

definition AuthCodeFlowStrategy_handleAuthCallbackRequest ::
  "BasicParams \<Rightarrow> Request \<Rightarrow> string \<Rightarrow> 'a eff" where
  "AuthCodeFlowStrategy_handleAuthCallbackRequest p request shop =
     try_catch (AuthCodeFlowStrategy_handleAuthCallbackRequest_try p request shop)
       (AuthCodeFlowStrategy_handleAuthCallbackRequest_catch p request shop)"

definition AuthCodeFlowStrategy_validateUrlParams :: "BasicParams \<Rightarrow> Request \<Rightarrow> unit eff" where
  "AuthCodeFlowStrategy_validateUrlParams p request =
     (if isEmbeddedApp (config p)
      then
        if \<not> truthy (utils_sanitizeShop (api p) (searchParams_get request ''shop''))
        then throw (ThrownResponse (redirect (auth_loginPath (auth (config p))) []))
        else if \<not> truthy (utils_sanitizeHost (api p) (searchParams_get request ''host''))
        then throw (ThrownResponse (redirect (auth_loginPath (auth (config p))) []))
        else ret ()
      else ret ())"

text \<open>
  The offline id both \<open>hasValidOfflineId\<close> and \<open>getOfflineSession\<close> compute: from
  the \<open>shop\<close> parameter when it is truthy, from the current session id otherwise.
\<close>

definition AuthCodeFlowStrategy_offlineId :: "BasicParams \<Rightarrow> Request \<Rightarrow> string option eff" where
  "AuthCodeFlowStrategy_offlineId p request =
     (case searchParams_get request ''shop'' of
        None \<Rightarrow> call (EvGetCurrentId False) (session_getCurrentId (api p) False request)
      | Some shop \<Rightarrow>
          if shop = []
          then call (EvGetCurrentId False) (session_getCurrentId (api p) False request)
          else ret (Some (session_getOfflineId (api p) (Some shop))))"

definition AuthCodeFlowStrategy_hasValidOfflineId :: "BasicParams \<Rightarrow> Request \<Rightarrow> bool eff" where
  "AuthCodeFlowStrategy_hasValidOfflineId p request =
     bind_eff (AuthCodeFlowStrategy_offlineId p request) (\<lambda>offlineId. ret (truthy offlineId))"

definition AuthCodeFlowStrategy_getOfflineSession ::
  "BasicParams \<Rightarrow> Request \<Rightarrow> Session option eff" where
  "AuthCodeFlowStrategy_getOfflineSession p request =
     bind_eff (AuthCodeFlowStrategy_offlineId p request)
       (\<lambda>offlineId.
          call (EvLoadSession (js_String offlineId))
            (loadSession (sessionStorage (config p)) (js_String offlineId)))"

definition AuthCodeFlowStrategy_testSession :: "BasicParams \<Rightarrow> Session \<Rightarrow> unit eff" where
  "AuthCodeFlowStrategy_testSession p session =
     call (EvGraphqlQuery session)
       (case clients_Graphql_query (api p) session of None \<Rightarrow> Inr () | Some e \<Rightarrow> Inl e)"

definition AuthCodeFlowStrategy_handleInvalidOfflineSession ::
  "BasicParams \<Rightarrow> thrown \<Rightarrow> Request \<Rightarrow> string \<Rightarrow> unit eff" where
  "AuthCodeFlowStrategy_handleInvalidOfflineSession p error request shop =
     (case error of
        HttpResponseError code txt \<Rightarrow>
          if code = 401 then beginAuth p request False (Some shop)
          else throw_new_Response None code txt []
      | GraphqlQueryError message \<Rightarrow>
          throw_new_Response None 500 ''Internal Server Error'' []
      | _ \<Rightarrow> ret ())"

definition AuthCodeFlowStrategy_ensureInstalledOnShop :: "BasicParams \<Rightarrow> Request \<Rightarrow> unit eff" where
  "AuthCodeFlowStrategy_ensureInstalledOnShop p request =
     bind_eff (AuthCodeFlowStrategy_validateUrlParams p request)
       (\<lambda>_.
          let shop = searchParams_get request ''shop'' in
          bind_eff (AuthCodeFlowStrategy_hasValidOfflineId p request)
            (\<lambda>valid.
               if \<not> valid then throw_new_Response None 400 ''Bad Request'' []
               else
                 bind_eff (AuthCodeFlowStrategy_getOfflineSession p request)
                   (\<lambda>loaded.
                      let isEmbedded = (searchParams_get request ''embedded'' = Some ''1'') in
                      bind_eff
                        (case loaded of
                           None \<Rightarrow>
                             if isEmbedded then redirectWithExitIframe p request shop
                             else beginAuth p request False shop
                         | Some offlineSession \<Rightarrow> ret offlineSession)
                        (\<lambda>offlineSession.
                           let shop' = (if truthy shop then js_String shop
                                        else session_shop offlineSession)
                           in
                             if isEmbeddedApp (config p) \<and> \<not> isEmbedded
                             then try_catch (AuthCodeFlowStrategy_testSession p offlineSession)
                                    (\<lambda>error.
                                       AuthCodeFlowStrategy_handleInvalidOfflineSession
                                         p error request shop')
                             else ret ()))))"

definition AuthCodeFlowStrategy_respondToOAuthRequests :: "BasicParams \<Rightarrow> Request \<Rightarrow> unit eff" where
  "AuthCodeFlowStrategy_respondToOAuthRequests p request =
     (let isAuthRequest = (req_pathname request = auth_path (auth (config p)));
          isAuthCallbackRequest = (req_pathname request = auth_callbackPath (auth (config p)))
      in
        if isAuthRequest \<or> isAuthCallbackRequest
        then
          (case utils_sanitizeShop (api p) (searchParams_get request ''shop'') of
             None \<Rightarrow> throw_new_Response (Some ''Shop param is invalid'') 400 [] []
           | Some shop \<Rightarrow>
               if shop = [] then throw_new_Response (Some ''Shop param is invalid'') 400 [] []
               else if isAuthRequest
               then AuthCodeFlowStrategy_handleAuthBeginRequest p request shop
               else AuthCodeFlowStrategy_handleAuthCallbackRequest p request shop)
        else if \<not> truthy (getSessionTokenHeader p request)
        then
          bind_eff (AuthCodeFlowStrategy_ensureInstalledOnShop p request)
            (\<lambda>_. bind_eff (ensureAppIsEmbeddedIfRequired p request)
            (\<lambda>_. ensureSessionTokenSearchParamIfRequired p request))
        else ret ())"

text \<open>
  \<open>getSessionTokenContext\<close> returns the shop, the payload (embedded apps only)
  and the session id.
\<close>

definition AuthCodeFlowStrategy_getSessionTokenContext ::
  "BasicParams \<Rightarrow> Request \<Rightarrow> string \<Rightarrow> (string option \<times> JwtPayload option \<times> string option) eff" where
  "AuthCodeFlowStrategy_getSessionTokenContext p request sessionToken =
     (if isEmbeddedApp (config p)
      then
        bind_eff (validateSessionToken p (Some sessionToken))
          (\<lambda>payload.
             let shop = jwt_dest_hostname payload in
             ret (Some shop, Some payload,
                  Some (if useOnlineTokens (config p)
                        then session_getJwtSessionId (api p) shop (jwt_sub payload)
                        else session_getOfflineId (api p) (Some shop))))
      else
        bind_eff
          (call (EvGetCurrentId (useOnlineTokens (config p)))
             (session_getCurrentId (api p) (useOnlineTokens (config p)) request))
          (\<lambda>sessionId. ret (searchParams_get request ''shop'', None, sessionId)))"

definition AuthCodeFlowStrategy_authenticate ::
  "BasicParams \<Rightarrow> Request \<Rightarrow> string \<Rightarrow> SessionContext eff" where
  "AuthCodeFlowStrategy_authenticate p request sessionToken =
     bind_eff (AuthCodeFlowStrategy_getSessionTokenContext p request sessionToken)
       (\<lambda>(shop, payload, sessionId).
          case (if truthy sessionId then sessionId else None) of
            None \<Rightarrow> beginAuth p request False shop
          | Some sid \<Rightarrow>
              bind_eff
                (call (EvLoadSession sid) (loadSession (sessionStorage (config p)) sid))
                (\<lambda>loaded.
                   case loaded of
                     None \<Rightarrow> redirectToAuthPage p request shop
                   | Some session \<Rightarrow>
                       if \<not> session_isActive (config p) session
                       then redirectToAuthPage p request shop
                       else ret \<lparr>sc_session = session, sc_token = payload\<rparr>))"

section \<open>Traces without the liveness probe\<close>

text \<open>
  A run is free of the liveness probe when its trace has no call of the
  shop-name query (\<open>testSession\<close>).
\<close>

definition probe_free :: "'a eff \<Rightarrow> bool" where
  "probe_free m = (\<forall>session. EvGraphqlQuery session \<notin> set (fst m))"

section \<open>A concrete installation, for evaluating the authenticators\<close>

text \<open>
  An embedded app at \<open>https://app.example\<close> using offline tokens, whose storage
  is empty and whose collaborators all succeed. The theorems below are
  instantiated at this installation and at variants of it.
\<close>

definition ex_session :: Session where
  "ex_session =
     \<lparr>session_id = ''offline_test.myshopify.com'', session_shop = ''test.myshopify.com'',
      session_isOnline = False, session_accessToken = ''shpat_1''\<rparr>"

definition ex_check :: WebhookFields where
  "ex_check =
     \<lparr>check_domain = ''test.myshopify.com'', check_topic = ''APP_UNINSTALLED'',
      check_apiVersion = ''2024-01'', check_webhookId = ''wh-1'', check_subTopic = None\<rparr>"

definition ex_storage :: SessionStorage where
  "ex_storage = \<lparr>loadSession = (\<lambda>sid. Inr None), storeSession = (\<lambda>session. Inr True)\<rparr>"

definition ex_auth :: AuthConfig where
  "ex_auth =
     \<lparr>auth_path = ''/auth'', auth_callbackPath = ''/auth/callback'',
      auth_exitIframePath = ''/auth/exit-iframe'',
      auth_patchSessionTokenPath = ''/auth/session-token'',
      auth_loginPath = ''/auth/login''\<rparr>"

definition ex_config :: AppConfig where
  "ex_config =
     \<lparr>appUrl = ''https://app.example'', apiKey = ''key'', isEmbeddedApp = True,
      useOnlineTokens = False, auth = ex_auth, sessionStorage = ex_storage,
      hooks_afterAuth = None, session_isActive = (\<lambda>session. True),
      REAUTH_URL_HEADER = ''X-Shopify-API-Request-Failure-Reauthorize-Url''\<rparr>"

definition ex_api :: Shopify where
  "ex_api =
     \<lparr>api_config_isEmbeddedApp = True, api_config_hostScheme = ''https'',
      utils_sanitizeShop = (\<lambda>shop. shop), utils_sanitizeHost = (\<lambda>host. host),
      session_getOfflineId = (\<lambda>shop. ''offline_'' @ js_String shop),
      session_getJwtSessionId = (\<lambda>shop sub. shop @ ''_'' @ sub),
      session_getCurrentId = (\<lambda>isOnline request. Inr None),
      auth_callback = (\<lambda>request. Inr (ex_session, [])),
      auth_getEmbeddedAppUrl = (\<lambda>request. Inr ''https://admin.shopify.com/store/test/apps/key''),
      auth_tokenExchange = (\<lambda>shop token. Inr ex_session),
      clients_Graphql_query = (\<lambda>session. None),
      webhooks_validate = (\<lambda>rawBody request. WebhookValid ex_check)\<rparr>"

definition ex_helpers :: Helpers where
  "ex_helpers =
     \<lparr>h_rejectBotRequest = (\<lambda>request. None),
      h_beginAuth = (\<lambda>request isOnline shop.
         redirect (if isOnline then ''https://test.myshopify.com/admin/oauth/authorize?online''
                   else ''https://test.myshopify.com/admin/oauth/authorize'') []),
      h_redirectWithExitIframe = (\<lambda>request shop. redirect ''/auth/exit-iframe'' []),
      h_redirectToAuthPage = (\<lambda>request shop. redirect ''/auth'' []),
      h_validateSessionToken = (\<lambda>token.
         Inr \<lparr>jwt_dest_hostname = ''test.myshopify.com'', jwt_sub = ''1''\<rparr>),
      h_getSessionTokenHeader = (\<lambda>request. map_of (req_headers request) ''authorization''),
      h_appBridgeUrl = ''https://cdn.shopify.com/shopifycloud/app-bridge.js'',
      h_createOrLoadOfflineSession = (\<lambda>shop. Inr None),
      h_ensureAppIsEmbeddedIfRequired = (\<lambda>request. None),
      h_ensureSessionTokenSearchParamIfRequired = (\<lambda>request. None),
      h_redirectToShopifyOrAppRoot = (\<lambda>request hs. ThrownResponse (redirect ''/'' hs)),
      h_triggerAfterAuthHook = (\<lambda>session request. None)\<rparr>"

definition ex_runtime :: JsRuntime where
  "ex_runtime =
     \<lparr>JSON_parse = (\<lambda>text. if text = ''{}'' then Inr (Json text) else Inl SyntaxError),
      decodeURIComponent = (\<lambda>text. Inr text),
      encodeURIComponent = (\<lambda>text. text),
      url_href_with_protocol = (\<lambda>request protocol.
         protocol @ ''//app.example'' @ req_pathname request),
      URLSearchParams_toString = (\<lambda>params. concat (map (\<lambda>(k, v). k @ ''='' @ v @ ''&'') params))\<rparr>"

definition ex_params :: BasicParams where
  "ex_params = \<lparr>api = ex_api, config = ex_config, helpers = ex_helpers, runtime = ex_runtime\<rparr>"

text \<open>The same installation with a stored offline session for every id.\<close>

definition ex_params_installed :: BasicParams where
  "ex_params_installed =
     ex_params\<lparr>config := ex_config\<lparr>sessionStorage :=
       ex_storage\<lparr>loadSession := (\<lambda>sid. Inr (Some ex_session))\<rparr>\<rparr>\<rparr>"

definition ex_webhook_request :: "(string \<times> string) list \<Rightarrow> Request" where
  "ex_webhook_request hs =
     \<lparr>req_method = ''POST'', req_pathname = ''/webhooks'', req_searchParams = [],
      req_headers = hs, req_body = ''{}''\<rparr>"

definition ex_document_request :: "string \<Rightarrow> (string \<times> string) list \<Rightarrow> Request" where
  "ex_document_request pathname extra =
     \<lparr>req_method = ''GET'', req_pathname = pathname,
      req_searchParams = [(''shop'', ''test.myshopify.com''), (''host'', ''aG9zdA'')] @ extra,
      req_headers = [], req_body = []\<rparr>"

definition ex_options_request :: Request where
  "ex_options_request =
     \<lparr>req_method = ''OPTIONS'', req_pathname = ''/app'', req_searchParams = [],
      req_headers = [(''Origin'', ''https://admin.shopify.com'')], req_body = []\<rparr>"

text \<open>Variants: the OAuth callback fails, the liveness probe fails, online tokens
  are configured, the bot detector rejects every request.\<close>

definition ex_params_callback_fails :: "thrown \<Rightarrow> BasicParams" where
  "ex_params_callback_fails error =
     ex_params\<lparr>api := ex_api\<lparr>auth_callback := (\<lambda>request. Inl error)\<rparr>\<rparr>"

definition ex_params_probe_fails :: "thrown \<Rightarrow> BasicParams" where
  "ex_params_probe_fails error =
     ex_params_installed\<lparr>api := ex_api\<lparr>clients_Graphql_query := (\<lambda>session. Some error)\<rparr>\<rparr>"

definition ex_params_online :: BasicParams where
  "ex_params_online = ex_params\<lparr>config := ex_config\<lparr>useOnlineTokens := True\<rparr>\<rparr>"

definition ex_bot_response :: Response where
  "ex_bot_response =
     \<lparr>status = 410, statusText = ''Gone'', resp_headers = [], resp_body = None\<rparr>"

definition ex_params_bot :: BasicParams where
  "ex_params_bot =
     ex_params\<lparr>helpers := ex_helpers\<lparr>h_rejectBotRequest := (\<lambda>request. Some ex_bot_response)\<rparr>\<rparr>"

text \<open>
  The token exchange fails; a webhook whose body is XML, carrying a session
  token.
\<close>

definition ex_params_exchange_fails :: "thrown \<Rightarrow> BasicParams" where
  "ex_params_exchange_fails error =
     ex_params\<lparr>api := ex_api\<lparr>auth_tokenExchange := (\<lambda>shop token. Inl error)\<rparr>\<rparr>"

definition ex_webhook_request_xml :: Request where
  "ex_webhook_request_xml =
     \<lparr>req_method = ''POST'', req_pathname = ''/webhooks'', req_searchParams = [],
      req_headers = [(''authorization'', ''tok'')], req_body = ''<shop/>''\<rparr>"

text \<open>A document load that names its shop and carries no \<open>host\<close> parameter.\<close>

definition ex_request_no_host :: Request where
  "ex_request_no_host =
     \<lparr>req_method = ''GET'', req_pathname = ''/app'',
      req_searchParams = [(''shop'', ''test.myshopify.com'')],
      req_headers = [], req_body = []\<rparr>"

section \<open>Reasoning about control flow\<close>

lemma bind_eff_simps:
  "bind_eff (t, Inl e) f = (t, Inl e)"
  "bind_eff (t, Inr x) f = (t @ fst (f x), snd (f x))"
  by (simp_all add: bind_eff_def)

lemma try_catch_simps:
  "try_catch (t, Inl e) h = (t @ fst (h e), snd (h e))"
  "try_catch (t, Inr x) h = (t, Inr x)"
  by (simp_all add: try_catch_def)

lemmas eff_defs = ret_def throw_def call_def

lemmas ex_defs = ex_params_def ex_api_def ex_config_def ex_helpers_def ex_runtime_def
  ex_storage_def ex_auth_def ex_session_def ex_check_def ex_params_installed_def
  ex_webhook_request_def ex_document_request_def ex_options_request_def
  ex_params_callback_fails_def ex_params_probe_fails_def ex_params_online_def
  ex_bot_response_def ex_params_bot_def ex_request_no_host_def
  ex_params_exchange_fails_def ex_webhook_request_xml_def

lemma reason_phrase_literals [simp]:
  "reason_phrase []"
  "reason_phrase ''Bad Request''"
  "reason_phrase ''Unauthorized''"
  "reason_phrase ''Method not allowed''"
  "reason_phrase ''Invalid OAuth Request''"
  "reason_phrase ''Internal Server Error''"
  "reason_phrase ''Forbidden''"
  "reason_phrase ''Too Many Requests''"
  by (simp_all add: reason_phrase_def)

lemma null_body_status_literals [simp]:
  "\<not> null_body_status 200" "\<not> null_body_status 400"
  by (simp_all add: null_body_status_def)

lemma throw_new_Response_ok:
  "200 \<le> st \<Longrightarrow> st \<le> 599 \<Longrightarrow> reason_phrase txt \<Longrightarrow> b = None \<or> \<not> null_body_status st \<Longrightarrow>
   throw_new_Response b st txt hs =
     ([], Inl (ThrownResponse \<lparr>status = st, statusText = txt, resp_headers = hs, resp_body = b\<rparr>))"
  by (auto simp: throw_new_Response_def new_Response_def eff_defs bind_eff_simps Let_def)

section \<open>Properties of webhook authentication\<close>

lemma getSessionFromTokenExchange_fail:
  assumes "auth_tokenExchange (api p) shop idToken = Inl error"
  shows "getSessionFromTokenExchange p idToken shop =
     ([EvTokenExchange shop idToken],
      if error = InvalidJwtError \<or> error = InvalidShopError
      then Inl (ThrownResponse \<lparr>status = 400, statusText = ''Bad Request'', resp_headers = [], resp_body = None\<rparr>)
      else Inr None)"
  using assms
  by (simp add: getSessionFromTokenExchange_def eff_defs bind_eff_simps try_catch_simps throw_new_Response_ok)

lemma getSessionFromTokenExchange_ok:
  assumes "auth_tokenExchange (api p) shop idToken = Inr s"
  shows "getSessionFromTokenExchange p idToken shop =
     ([EvTokenExchange shop idToken, EvStoreSession s], Inr (Some s))"
  using assms
  by (cases "storeSession (sessionStorage (config p)) s")
     (simp_all add: getSessionFromTokenExchange_def eff_defs bind_eff_simps try_catch_simps)

lemma authenticate_valid:
  assumes "req_method request = ''POST''"
    and "webhooks_validate (api p) (req_body request) request = WebhookValid c"
    and "h_createOrLoadOfflineSession (helpers p) (check_domain c) = Inr s0"
  shows "authenticate p request =
     bind_eff ([EvWebhooksValidate, EvCreateOrLoadOfflineSession (check_domain c)], Inr ())
      (\<lambda>_. bind_eff
              (if s0 = None \<and> check_topic c \<noteq> ''SHOP_REDACT''
               then
                 (case getSessionTokenHeader p request of
                    None \<Rightarrow> ret s0
                  | Some idToken \<Rightarrow>
                      if idToken \<noteq> []
                      then getSessionFromTokenExchange p idToken (check_domain c)
                      else ret s0)
               else ret s0)
              (\<lambda>session.
                 bind_eff (([], JSON_parse (runtime p) (req_body request)))
                   (\<lambda>payload.
                      let webhookContext =
                        \<lparr>wh_apiVersion = check_apiVersion c,
                         wh_shop = check_domain c,
                         wh_topic = check_topic c,
                         wh_webhookId = check_webhookId c,
                         wh_payload = payload,
                         wh_subTopic =
                           (if truthy (check_subTopic c) then check_subTopic c else None),
                         wh_session = None,
                         wh_admin = None\<rparr>
                      in
                        case session of
                          Some s \<Rightarrow>
                            ret (webhookContext
                                  \<lparr>wh_session := Some s,
                                   wh_admin := Some (adminClientFactory p s)\<rparr>)
                        | None \<Rightarrow> ret webhookContext)))"
  using assms
  by (simp add: authenticate_def createOrLoadOfflineSession_def eff_defs bind_eff_def Let_def)

lemma authenticate_session_admin:
  "snd (authenticate p request) = Inr ctx \<Longrightarrow>
   wh_admin ctx = map_option AdminApiContext (wh_session ctx)"
  by (auto simp: authenticate_def createOrLoadOfflineSession_def eff_defs bind_eff_def Let_def
      throw_new_Response_def new_Response_def adminClientFactory_def
      split: if_splits sum.splits option.splits WebhookValidation.splits)

text \<open>
  Claim C7. A POST webhook request that fails validation ends with a thrown
  response and no webhook context: status 401 when the reason is the HMAC
  mismatch, status 400 for every other reason. The validator is the only
  collaborator called.
\<close>

theorem webhook_invalid_401_or_400:
  assumes "req_method request = ''POST''"
    and "webhooks_validate (api p) (req_body request) request = WebhookInvalid reason"
  shows "authenticate p request =
    ([EvWebhooksValidate],
     Inl (ThrownResponse
       (if reason = InvalidHmac
        then \<lparr>status = 401, statusText = ''Unauthorized'', resp_headers = [], resp_body = None\<rparr>
        else \<lparr>status = 400, statusText = ''Bad Request'', resp_headers = [], resp_body = None\<rparr>)))"
  using assms
  by (simp add: authenticate_def eff_defs bind_eff_simps throw_new_Response_ok)

text \<open>Claim C7 at a bad signature and at missing headers.\<close>

theorem webhook_invalid_401_or_400_witness:
  "authenticate
     (ex_params\<lparr>api := ex_api\<lparr>webhooks_validate := (\<lambda>rawBody request. WebhookInvalid InvalidHmac)\<rparr>\<rparr>)
     (ex_webhook_request []) =
   ([EvWebhooksValidate],
    Inl (ThrownResponse \<lparr>status = 401, statusText = ''Unauthorized'', resp_headers = [], resp_body = None\<rparr>))
   \<and> authenticate
     (ex_params\<lparr>api := ex_api\<lparr>webhooks_validate :=
        (\<lambda>rawBody request. WebhookInvalid (OtherReason ''missing_headers''))\<rparr>\<rparr>)
     (ex_webhook_request []) =
   ([EvWebhooksValidate],
    Inl (ThrownResponse \<lparr>status = 400, statusText = ''Bad Request'', resp_headers = [], resp_body = None\<rparr>))"
  using webhook_invalid_401_or_400
          [of "ex_webhook_request []"
              "ex_params\<lparr>api := ex_api\<lparr>webhooks_validate := (\<lambda>rawBody request. WebhookInvalid InvalidHmac)\<rparr>\<rparr>"
              InvalidHmac]
        webhook_invalid_401_or_400
          [of "ex_webhook_request []"
              "ex_params\<lparr>api := ex_api\<lparr>webhooks_validate :=
                 (\<lambda>rawBody request. WebhookInvalid (OtherReason ''missing_headers''))\<rparr>\<rparr>"
              "OtherReason ''missing_headers''"]
  by (simp add: ex_defs)

text \<open>
  Claim C8 as stated fails: after a token exchange that fails with a network
  error, a webhook whose body is not JSON ends with the \<open>SyntaxError\<close> of
  \<open>JSON.parse\<close>; no webhook context is returned.
\<close>

theorem token_exchange_failure_unparsable_body_counterexample:
  "req_method ex_webhook_request_xml = ''POST''
   \<and> webhooks_validate (api (ex_params_exchange_fails (OtherError ''ECONNRESET'')))
         (req_body ex_webhook_request_xml) ex_webhook_request_xml = WebhookValid ex_check
   \<and> auth_tokenExchange (api (ex_params_exchange_fails (OtherError ''ECONNRESET'')))
         ''test.myshopify.com'' ''tok'' = Inl (OtherError ''ECONNRESET'')
   \<and> authenticate (ex_params_exchange_fails (OtherError ''ECONNRESET'')) ex_webhook_request_xml
       = ([EvWebhooksValidate, EvCreateOrLoadOfflineSession ''test.myshopify.com'',
           EvTokenExchange ''test.myshopify.com'' ''tok''],
          Inl SyntaxError)"
  by (simp add: ex_defs authenticate_def createOrLoadOfflineSession_def
        getSessionTokenHeader_def getSessionFromTokenExchange_fail eff_defs bind_eff_simps)

text \<open>
  Claim C8, as amended. When no offline session is found for a valid webhook
  (topic other than \<open>SHOP_REDACT\<close>) that carries a session token, and the token
  exchange fails: an \<open>InvalidJwtError\<close> or \<open>InvalidShopError\<close> ends the request with
  a 400 response; after every other thrown value \<open>getSessionFromTokenExchange\<close>
  returns \<open>undefined\<close> and, when the body of the request parses as JSON, the
  authenticator returns the webhook context without session and admin handle;
  a body that does not parse ends the request with the error of \<open>JSON.parse\<close>.
\<close>

theorem token_exchange_failure_mapping:
  assumes "req_method request = ''POST''"
    and "webhooks_validate (api p) (req_body request) request = WebhookValid c"
    and "h_createOrLoadOfflineSession (helpers p) (check_domain c) = Inr None"
    and "check_topic c \<noteq> ''SHOP_REDACT''"
    and "getSessionTokenHeader p request = Some idToken" and "idToken \<noteq> []"
    and "auth_tokenExchange (api p) (check_domain c) idToken = Inl error"
  shows "(error = InvalidJwtError \<or> error = InvalidShopError \<longrightarrow>
            authenticate p request =
              ([EvWebhooksValidate, EvCreateOrLoadOfflineSession (check_domain c),
                EvTokenExchange (check_domain c) idToken],
               Inl (ThrownResponse \<lparr>status = 400, statusText = ''Bad Request'',
                                    resp_headers = [], resp_body = None\<rparr>)))
       \<and> (error \<noteq> InvalidJwtError \<and> error \<noteq> InvalidShopError \<longrightarrow>
            getSessionFromTokenExchange p idToken (check_domain c) =
              ([EvTokenExchange (check_domain c) idToken], Inr None)
          \<and> authenticate p request =
              ([EvWebhooksValidate, EvCreateOrLoadOfflineSession (check_domain c),
                EvTokenExchange (check_domain c) idToken],
               case JSON_parse (runtime p) (req_body request) of
                 Inl e \<Rightarrow> Inl e
               | Inr payload \<Rightarrow>
                   Inr \<lparr>wh_apiVersion = check_apiVersion c, wh_shop = check_domain c,
                        wh_topic = check_topic c, wh_webhookId = check_webhookId c,
                        wh_payload = payload,
                        wh_subTopic =
                          (if truthy (check_subTopic c) then check_subTopic c else None),
                        wh_session = None, wh_admin = None\<rparr>))"
  using assms
  by (cases "JSON_parse (runtime p) (req_body request)")
     (simp_all add: authenticate_valid getSessionFromTokenExchange_fail eff_defs bind_eff_simps)

text \<open>Claim C8, as amended, at an invalid token and at a network failure.\<close>

theorem token_exchange_failure_mapping_witness:
  "authenticate
     (ex_params\<lparr>api := ex_api\<lparr>auth_tokenExchange := (\<lambda>shop token. Inl InvalidJwtError)\<rparr>\<rparr>)
     (ex_webhook_request [(''authorization'', ''tok'')]) =
     ([EvWebhooksValidate, EvCreateOrLoadOfflineSession ''test.myshopify.com'',
       EvTokenExchange ''test.myshopify.com'' ''tok''],
      Inl (ThrownResponse \<lparr>status = 400, statusText = ''Bad Request'',
                           resp_headers = [], resp_body = None\<rparr>))
   \<and> authenticate
     (ex_params\<lparr>api := ex_api\<lparr>auth_tokenExchange := (\<lambda>shop token. Inl (OtherError ''ECONNRESET''))\<rparr>\<rparr>)
     (ex_webhook_request [(''authorization'', ''tok'')]) =
     ([EvWebhooksValidate, EvCreateOrLoadOfflineSession ''test.myshopify.com'',
       EvTokenExchange ''test.myshopify.com'' ''tok''],
      Inr \<lparr>wh_apiVersion = ''2024-01'', wh_shop = ''test.myshopify.com'',
           wh_topic = ''APP_UNINSTALLED'', wh_webhookId = ''wh-1'',
           wh_payload = Json ''{}'', wh_subTopic = None,
           wh_session = None, wh_admin = None\<rparr>)"
  using token_exchange_failure_mapping
          [of "ex_webhook_request [(''authorization'', ''tok'')]"
              "ex_params\<lparr>api := ex_api\<lparr>auth_tokenExchange := (\<lambda>shop token. Inl InvalidJwtError)\<rparr>\<rparr>"
              ex_check "''tok''" InvalidJwtError]
        token_exchange_failure_mapping
          [of "ex_webhook_request [(''authorization'', ''tok'')]"
              "ex_params\<lparr>api := ex_api\<lparr>auth_tokenExchange := (\<lambda>shop token. Inl (OtherError ''ECONNRESET''))\<rparr>\<rparr>"
              ex_check "''tok''" "OtherError ''ECONNRESET''"]
  by (simp add: ex_params_def ex_api_def ex_config_def ex_helpers_def ex_runtime_def
      ex_storage_def ex_check_def ex_webhook_request_def getSessionTokenHeader_def truthy_def)

text \<open>
  Claim C9. When the token exchange succeeds and \<open>storeSession\<close> throws, the
  thrown value is swallowed: \<open>getSessionFromTokenExchange\<close> returns the exchanged
  session, the run of the authenticator is the run with a storage that
  succeeds, and the webhook context carries the exchanged session and its admin
  handle (a body that does not parse ends the request with the error of
  \<open>JSON.parse\<close>, with either storage).
\<close>

theorem storage_failure_swallowed:
  assumes "req_method request = ''POST''"
    and "webhooks_validate (api p) (req_body request) request = WebhookValid c"
    and "h_createOrLoadOfflineSession (helpers p) (check_domain c) = Inr None"
    and "check_topic c \<noteq> ''SHOP_REDACT''"
    and "getSessionTokenHeader p request = Some idToken" and "idToken \<noteq> []"
    and "auth_tokenExchange (api p) (check_domain c) idToken = Inr s"
    and "storeSession (sessionStorage (config p)) s = Inl error"
  shows "getSessionFromTokenExchange p idToken (check_domain c) =
           ([EvTokenExchange (check_domain c) idToken, EvStoreSession s], Inr (Some s))
       \<and> authenticate p request =
           ([EvWebhooksValidate, EvCreateOrLoadOfflineSession (check_domain c),
             EvTokenExchange (check_domain c) idToken, EvStoreSession s],
            case JSON_parse (runtime p) (req_body request) of
              Inl e \<Rightarrow> Inl e
            | Inr payload \<Rightarrow>
                Inr \<lparr>wh_apiVersion = check_apiVersion c, wh_shop = check_domain c,
                     wh_topic = check_topic c, wh_webhookId = check_webhookId c,
                     wh_payload = payload,
                     wh_subTopic =
                       (if truthy (check_subTopic c) then check_subTopic c else None),
                     wh_session = Some s, wh_admin = Some (AdminApiContext s)\<rparr>)
       \<and> authenticate p request =
           authenticate
             (p\<lparr>config := (config p)\<lparr>sessionStorage :=
                  (sessionStorage (config p))\<lparr>storeSession := (\<lambda>session. Inr True)\<rparr>\<rparr>\<rparr>)
             request"
proof -
  let ?p' = "p\<lparr>config := (config p)\<lparr>sessionStorage :=
                  (sessionStorage (config p))\<lparr>storeSession := (\<lambda>session. Inr True)\<rparr>\<rparr>\<rparr>"
  let ?result = "([EvWebhooksValidate, EvCreateOrLoadOfflineSession (check_domain c),
             EvTokenExchange (check_domain c) idToken, EvStoreSession s],
            case JSON_parse (runtime p) (req_body request) of
              Inl e \<Rightarrow> Inl e
            | Inr payload \<Rightarrow>
                Inr \<lparr>wh_apiVersion = check_apiVersion c, wh_shop = check_domain c,
                     wh_topic = check_topic c, wh_webhookId = check_webhookId c,
                     wh_payload = payload,
                     wh_subTopic =
                       (if truthy (check_subTopic c) then check_subTopic c else None),
                     wh_session = Some s, wh_admin = Some (AdminApiContext s)\<rparr>)"
  have ex: "getSessionFromTokenExchange p idToken (check_domain c) =
           ([EvTokenExchange (check_domain c) idToken, EvStoreSession s], Inr (Some s))"
    using assms(7) by (rule getSessionFromTokenExchange_ok)
  have ex': "getSessionFromTokenExchange ?p' idToken (check_domain c) =
           ([EvTokenExchange (check_domain c) idToken, EvStoreSession s], Inr (Some s))"
    using assms(7) by (intro getSessionFromTokenExchange_ok) simp
  have a: "authenticate p request = ?result"
    using assms(1-6)
    by (cases "JSON_parse (runtime p) (req_body request)")
       (simp_all add: authenticate_valid ex eff_defs bind_eff_simps adminClientFactory_def)
  have a': "authenticate ?p' request = ?result"
    using assms(1-6)
    by (subst authenticate_valid[where c=c and ?s0.0=None];
        cases "JSON_parse (runtime p) (req_body request)")
       (simp_all add: ex' eff_defs bind_eff_simps adminClientFactory_def getSessionTokenHeader_def)
  from ex a a' show ?thesis by simp
qed

text \<open>Claim C9 at a storage that is down.\<close>

theorem storage_failure_swallowed_witness:
  "authenticate
     (ex_params\<lparr>config := ex_config\<lparr>sessionStorage :=
        ex_storage\<lparr>storeSession := (\<lambda>session. Inl (OtherError ''database is down''))\<rparr>\<rparr>\<rparr>)
     (ex_webhook_request [(''authorization'', ''tok'')]) =
     ([EvWebhooksValidate, EvCreateOrLoadOfflineSession ''test.myshopify.com'',
       EvTokenExchange ''test.myshopify.com'' ''tok'', EvStoreSession ex_session],
      Inr \<lparr>wh_apiVersion = ''2024-01'', wh_shop = ''test.myshopify.com'',
           wh_topic = ''APP_UNINSTALLED'', wh_webhookId = ''wh-1'',
           wh_payload = Json ''{}'', wh_subTopic = None,
           wh_session = Some ex_session, wh_admin = Some (AdminApiContext ex_session)\<rparr>)"
  using storage_failure_swallowed
          [of "ex_webhook_request [(''authorization'', ''tok'')]"
              "ex_params\<lparr>config := ex_config\<lparr>sessionStorage :=
                 ex_storage\<lparr>storeSession := (\<lambda>session. Inl (OtherError ''database is down''))\<rparr>\<rparr>\<rparr>"
              ex_check "''tok''" ex_session "OtherError ''database is down''"]
  by (simp add: ex_params_def ex_api_def ex_config_def ex_helpers_def ex_runtime_def
      ex_storage_def ex_check_def ex_webhook_request_def getSessionTokenHeader_def truthy_def)

text \<open>
  Claim C10. For a valid \<open>SHOP_REDACT\<close> webhook with no offline session found,
  the authenticator calls the validator and the session lookup only (no token
  exchange, whatever the headers are), and the context it returns has neither
  session nor admin handle. In every context the authenticator returns, on any
  request, \<open>session\<close> and \<open>admin\<close> are both present or both \<open>undefined\<close>.
\<close>

theorem shop_redact_no_token_exchange:
  "(req_method request = ''POST''
      \<and> webhooks_validate (api p) (req_body request) request = WebhookValid c
      \<and> check_topic c = ''SHOP_REDACT''
      \<and> h_createOrLoadOfflineSession (helpers p) (check_domain c) = Inr None \<longrightarrow>
      authenticate p request =
        ([EvWebhooksValidate, EvCreateOrLoadOfflineSession (check_domain c)],
         case JSON_parse (runtime p) (req_body request) of
           Inl e \<Rightarrow> Inl e
         | Inr payload \<Rightarrow>
             Inr \<lparr>wh_apiVersion = check_apiVersion c, wh_shop = check_domain c,
                  wh_topic = check_topic c, wh_webhookId = check_webhookId c,
                  wh_payload = payload,
                  wh_subTopic = (if truthy (check_subTopic c) then check_subTopic c else None),
                  wh_session = None, wh_admin = None\<rparr>)
      \<and> EvTokenExchange shop idToken \<notin> set (fst (authenticate p request)))
   \<and> (snd (authenticate p' request') = Inr ctx \<longrightarrow>
        (wh_session ctx = None) = (wh_admin ctx = None))"
proof (intro conjI impI)
  assume h: "req_method request = ''POST''
      \<and> webhooks_validate (api p) (req_body request) request = WebhookValid c
      \<and> check_topic c = ''SHOP_REDACT''
      \<and> h_createOrLoadOfflineSession (helpers p) (check_domain c) = Inr None"
  then show r: "authenticate p request =
        ([EvWebhooksValidate, EvCreateOrLoadOfflineSession (check_domain c)],
         case JSON_parse (runtime p) (req_body request) of
           Inl e \<Rightarrow> Inl e
         | Inr payload \<Rightarrow>
             Inr \<lparr>wh_apiVersion = check_apiVersion c, wh_shop = check_domain c,
                  wh_topic = check_topic c, wh_webhookId = check_webhookId c,
                  wh_payload = payload,
                  wh_subTopic = (if truthy (check_subTopic c) then check_subTopic c else None),
                  wh_session = None, wh_admin = None\<rparr>)"
    by (cases "JSON_parse (runtime p) (req_body request)")
       (simp_all add: authenticate_valid[where ?s0.0=None] eff_defs bind_eff_simps)
  show "EvTokenExchange shop idToken \<notin> set (fst (authenticate p request))"
    by (simp add: r)
next
  assume "snd (authenticate p' request') = Inr ctx"
  from authenticate_session_admin[OF this]
  show "(wh_session ctx = None) = (wh_admin ctx = None)" by simp
qed

text \<open>Claim C10 at a \<open>SHOP_REDACT\<close> webhook that carries a session token.\<close>

theorem shop_redact_no_token_exchange_witness:
  "authenticate
     (ex_params\<lparr>api := ex_api\<lparr>webhooks_validate :=
        (\<lambda>rawBody request. WebhookValid (ex_check\<lparr>check_topic := ''SHOP_REDACT''\<rparr>))\<rparr>\<rparr>)
     (ex_webhook_request [(''authorization'', ''tok'')]) =
     ([EvWebhooksValidate, EvCreateOrLoadOfflineSession ''test.myshopify.com''],
      Inr \<lparr>wh_apiVersion = ''2024-01'', wh_shop = ''test.myshopify.com'',
           wh_topic = ''SHOP_REDACT'', wh_webhookId = ''wh-1'',
           wh_payload = Json ''{}'', wh_subTopic = None,
           wh_session = None, wh_admin = None\<rparr>)
   \<and> getSessionTokenHeader ex_params (ex_webhook_request [(''authorization'', ''tok'')]) = Some ''tok''"
  using shop_redact_no_token_exchange
          [of "ex_webhook_request [(''authorization'', ''tok'')]"
              "ex_params\<lparr>api := ex_api\<lparr>webhooks_validate :=
                 (\<lambda>rawBody request. WebhookValid (ex_check\<lparr>check_topic := ''SHOP_REDACT''\<rparr>))\<rparr>\<rparr>"
              "ex_check\<lparr>check_topic := ''SHOP_REDACT''\<rparr>"]
  by (simp add: ex_params_def ex_api_def ex_config_def ex_helpers_def ex_runtime_def
      ex_storage_def ex_check_def ex_webhook_request_def getSessionTokenHeader_def truthy_def)

section \<open>Properties of admin authentication\<close>

subsection \<open>The entry point \<open>authenticateAdmin\<close>\<close>

lemma rejectBotRequest_eq:
  "rejectBotRequest p request =
     ([EvRejectBotRequest],
      case h_rejectBotRequest (helpers p) request of None \<Rightarrow> Inr () | Some r \<Rightarrow> Inl (ThrownResponse r))"
  by (simp add: rejectBotRequest_def call_def)

lemma authenticateAdmin_OPTIONS:
  assumes "req_method request = ''OPTIONS''"
  shows "AuthStrategy_authenticateAdmin p request =
     ([EvRejectBotRequest],
      Inl (ThrownResponse
        (case h_rejectBotRequest (helpers p) request of
           Some r \<Rightarrow> r
         | None \<Rightarrow> \<lparr>status = 204, statusText = [],
                     resp_headers = [(''Access-Control-Max-Age'', ''7200'')],
                     resp_body = None\<rparr>)))"
  using assms
  by (cases "h_rejectBotRequest (helpers p) request")
     (simp_all add: AuthStrategy_authenticateAdmin_def rejectBotRequest_eq bind_eff_simps
        AuthStrategy_respondToOptionsRequest_def throw_new_Response_ok)

lemma authenticateAdmin_main:
  assumes "h_rejectBotRequest (helpers p) request = None"
    and "req_method request \<noteq> ''OPTIONS''"
  shows "AuthStrategy_authenticateAdmin p request =
     bind_eff ([EvRejectBotRequest], Inr ())
       (\<lambda>_. bind_eff
               (try_catch (AuthStrategy_authenticateAndGetSessionContext p request)
                  (\<lambda>errorOrResponse.
                     case errorOrResponse of
                       ThrownResponse response \<Rightarrow>
                         throw (ThrownResponse (AuthStrategy_ensureCORSHeaders p request response))
                     | _ \<Rightarrow> throw errorOrResponse))
       (\<lambda>sessionContext.
          let context =
                \<lparr>ctx_admin = AuthStrategy_createAdminApiContext p request (sc_session sessionContext),
                 ctx_billing = AuthStrategy_createBillingContext p request (sc_session sessionContext),
                 ctx_session = sc_session sessionContext,
                 ctx_sessionToken = None\<rparr>
          in
            if isEmbeddedApp (config p)
            then ret (context\<lparr>ctx_sessionToken := sc_token sessionContext\<rparr>)
            else ret context))"
  using assms
  by (simp add: AuthStrategy_authenticateAdmin_def rejectBotRequest_eq bind_eff_simps
        AuthStrategy_respondToOptionsRequest_def eff_defs)

lemma authenticateAdmin_thrown:
  assumes "h_rejectBotRequest (helpers p) request = None"
    and "req_method request \<noteq> ''OPTIONS''"
    and "snd (AuthStrategy_authenticateAdmin p request) = Inl x"
  shows "(\<exists>r. snd (AuthStrategy_authenticateAndGetSessionContext p request) = Inl (ThrownResponse r)
            \<and> x = ThrownResponse (AuthStrategy_ensureCORSHeaders p request r))
       \<or> (snd (AuthStrategy_authenticateAndGetSessionContext p request) = Inl x \<and> \<not> is_Response x)"
  using assms(3) unfolding authenticateAdmin_main[OF assms(1,2)]
  by (cases "AuthStrategy_authenticateAndGetSessionContext p request")
     (auto simp: bind_eff_def try_catch_def eff_defs Let_def is_Response_def
        split: sum.splits thrown.splits if_splits)

lemma authenticateAdmin_response:
  assumes "h_rejectBotRequest (helpers p) request = None"
    and "req_method request \<noteq> ''OPTIONS''"
    and "AuthStrategy_authenticateAndGetSessionContext p request = (t, Inl (ThrownResponse r))"
  shows "AuthStrategy_authenticateAdmin p request =
           (EvRejectBotRequest # t,
            Inl (ThrownResponse (AuthStrategy_ensureCORSHeaders p request r)))"
  unfolding authenticateAdmin_main[OF assms(1,2)] assms(3)
  by (simp add: bind_eff_simps try_catch_simps eff_defs)

lemma authenticateAdmin_no_context:
  assumes "snd (AuthStrategy_authenticateAndGetSessionContext p request) = Inl x"
  shows "snd (AuthStrategy_authenticateAdmin p request) \<noteq> Inr ctx"
  using assms
  by (cases "AuthStrategy_authenticateAndGetSessionContext p request")
     (auto simp: AuthStrategy_authenticateAdmin_def rejectBotRequest_eq bind_eff_def
        try_catch_def eff_defs AuthStrategy_respondToOptionsRequest_def
        throw_new_Response_ok split: option.splits thrown.splits sum.splits)

lemma AuthStrategy_document_load:
  assumes "req_pathname request \<noteq> auth_patchSessionTokenPath (auth (config p))"
    and "req_pathname request \<noteq> auth_exitIframePath (auth (config p))"
    and "req_pathname request \<noteq> auth_callbackPath (auth (config p))"
    and "req_pathname request \<noteq> auth_path (auth (config p))"
    and "\<not> truthy (getSessionTokenHeader p request)"
    and "truthy (utils_sanitizeShop (api p) (searchParams_get request ''shop''))"
    and "isEmbeddedApp (config p) \<longrightarrow>
           truthy (utils_sanitizeHost (api p) (searchParams_get request ''host''))"
  shows "AuthStrategy_authenticateAndGetSessionContext p request =
          bind_eff (AuthStrategy_ensureInstalledOnShop p request)
            (\<lambda>_. bind_eff (AuthStrategy_ensureAppIsEmbeddedIfRequired p request)
            (\<lambda>_. bind_eff (AuthStrategy_ensureSessionTokenSearchParamIfRequired p request)
            (\<lambda>_. AuthStrategy_ensureSessionExists p request)))"
  using assms
  by (auto simp: AuthStrategy_authenticateAndGetSessionContext_def Let_def
        AuthStrategy_validateUrlParams_def eff_defs bind_eff_simps)

lemma ensureCORSHeaders_headers:
  assumes "headers_get (req_headers request) ''Origin'' \<noteq> Some (appUrl (config p))"
  shows "headers_get (resp_headers (AuthStrategy_ensureCORSHeaders p request r))
           ''Access-Control-Allow-Origin'' = Some ''*''"
    and "headers_get (resp_headers (AuthStrategy_ensureCORSHeaders p request r))
           ''Access-Control-Allow-Headers'' = Some ''Authorization''"
    and "headers_get (resp_headers (AuthStrategy_ensureCORSHeaders p request r))
           ''Access-Control-Expose-Headers'' = Some (REAUTH_URL_HEADER (config p))"
  using assms
  by (simp_all add: AuthStrategy_ensureCORSHeaders_def headers_get_def headers_set_def
        update_conv')

subsection \<open>The OAuth callback\<close>

lemma AuthStrategy_ensureValidShopParam_ok:
  assumes "utils_sanitizeShop (api p) (searchParams_get request ''shop'') = Some shop"
    and "shop \<noteq> []"
  shows "AuthStrategy_ensureValidShopParam p request = ([], Inr shop)"
  using assms by (simp add: AuthStrategy_ensureValidShopParam_def eff_defs)

lemma AuthStrategy_handleAuthCallbackRequest_thrown:
  assumes "utils_sanitizeShop (api p) (searchParams_get request ''shop'') = Some shop"
    and "shop \<noteq> []"
    and "snd (AuthStrategy_handleAuthCallbackRequest_try p request shop :: 'a eff) = Inl error"
  shows "(AuthStrategy_handleAuthCallbackRequest p request :: 'a eff) =
     (fst (AuthStrategy_handleAuthCallbackRequest_try p request shop :: 'a eff)
        @ fst (AuthStrategy_handleAuthCallbackRequest_catch p request error :: 'a eff),
      snd (AuthStrategy_handleAuthCallbackRequest_catch p request error :: 'a eff))"
  using assms(3)
  by (simp add: AuthStrategy_handleAuthCallbackRequest_def
        AuthStrategy_ensureValidShopParam_ok[OF assms(1,2)] bind_eff_simps try_catch_def)

lemma AuthStrategy_handleAuthCallbackRequest_catch_cases:
  "(AuthStrategy_handleAuthCallbackRequest_catch p request (ThrownResponse r) :: 'a eff)
     = ([], Inl (ThrownResponse r))"
  "(AuthStrategy_handleAuthCallbackRequest_catch p request CookieNotFound :: 'a eff)
     = AuthStrategy_handleAuthBeginRequest p request"
  "error = InvalidHmacError \<or> error = InvalidOAuthError \<Longrightarrow>
   (AuthStrategy_handleAuthCallbackRequest_catch p request error :: 'a eff)
     = ([], Inl (ThrownResponse \<lparr>status = 400, statusText = ''Invalid OAuth Request'',
                                  resp_headers = [], resp_body = None\<rparr>))"
  "\<not> is_Response error \<Longrightarrow> error \<noteq> CookieNotFound \<Longrightarrow> error \<noteq> InvalidHmacError \<Longrightarrow>
   error \<noteq> InvalidOAuthError \<Longrightarrow>
   (AuthStrategy_handleAuthCallbackRequest_catch p request error :: 'a eff)
     = ([], Inl (ThrownResponse \<lparr>status = 500, statusText = ''Internal Server Error'',
                                  resp_headers = [], resp_body = None\<rparr>))"
  by (auto simp: AuthStrategy_handleAuthCallbackRequest_catch_def is_Response_def eff_defs
        throw_new_Response_ok)

lemma AuthCodeFlowStrategy_handleAuthCallbackRequest_thrown:
  assumes "snd (AuthCodeFlowStrategy_handleAuthCallbackRequest_try p request shop :: 'a eff) = Inl error"
  shows "(AuthCodeFlowStrategy_handleAuthCallbackRequest p request shop :: 'a eff) =
     (fst (AuthCodeFlowStrategy_handleAuthCallbackRequest_try p request shop :: 'a eff)
        @ fst (AuthCodeFlowStrategy_handleAuthCallbackRequest_catch p request shop error :: 'a eff),
      snd (AuthCodeFlowStrategy_handleAuthCallbackRequest_catch p request shop error :: 'a eff))"
  using assms
  by (simp add: AuthCodeFlowStrategy_handleAuthCallbackRequest_def try_catch_def)

lemma AuthCodeFlowStrategy_handleAuthBeginRequest_throws:
  "\<exists>t r. (AuthCodeFlowStrategy_handleAuthBeginRequest p request shop :: 'a eff)
            = (t, Inl (ThrownResponse r))"
  by (simp add: AuthCodeFlowStrategy_handleAuthBeginRequest_def redirectWithExitIframe_def
        beginAuth_def eff_defs)

lemma AuthCodeFlowStrategy_handleAuthBeginRequest_poly:
  "snd (AuthCodeFlowStrategy_handleAuthBeginRequest p request shop :: 'a eff) = Inl x \<longleftrightarrow>
   snd (AuthCodeFlowStrategy_handleAuthBeginRequest p request shop :: 'b eff) = Inl x"
  by (simp add: AuthCodeFlowStrategy_handleAuthBeginRequest_def redirectWithExitIframe_def
        beginAuth_def eff_defs)

lemma AuthCodeFlowStrategy_handleAuthCallbackRequest_catch_cases:
  "(AuthCodeFlowStrategy_handleAuthCallbackRequest_catch p request shop (ThrownResponse r) :: 'a eff)
     = ([], Inl (ThrownResponse r))"
  "snd (AuthCodeFlowStrategy_handleAuthCallbackRequest_catch p request shop CookieNotFound :: 'a eff)
     = snd (AuthCodeFlowStrategy_handleAuthBeginRequest p request shop :: 'a eff)"
  "fst (AuthCodeFlowStrategy_handleAuthCallbackRequest_catch p request shop CookieNotFound :: 'a eff)
     = fst (AuthCodeFlowStrategy_handleAuthBeginRequest p request shop :: 'a eff)"
  "error = InvalidHmacError \<or> error = InvalidOAuthError \<Longrightarrow>
   (AuthCodeFlowStrategy_handleAuthCallbackRequest_catch p request shop error :: 'a eff)
     = ([], Inl (ThrownResponse \<lparr>status = 400, statusText = ''Invalid OAuth Request'',
                                  resp_headers = [], resp_body = None\<rparr>))"
  "\<not> is_Response error \<Longrightarrow> error \<noteq> CookieNotFound \<Longrightarrow> error \<noteq> InvalidHmacError \<Longrightarrow>
   error \<noteq> InvalidOAuthError \<Longrightarrow>
   (AuthCodeFlowStrategy_handleAuthCallbackRequest_catch p request shop error :: 'a eff)
     = ([], Inl (ThrownResponse \<lparr>status = 500, statusText = ''Internal Server Error'',
                                  resp_headers = [], resp_body = None\<rparr>))"
  by (auto simp: AuthCodeFlowStrategy_handleAuthCallbackRequest_catch_def is_Response_def eff_defs
        AuthCodeFlowStrategy_oauthCallbackError_def new_Response_def bind_eff_def
        AuthCodeFlowStrategy_handleAuthBeginRequest_def redirectWithExitIframe_def beginAuth_def)

text \<open>The \<open>try\<close> block of the callback handler never returns: it always throws.\<close>

lemma AuthStrategy_redirectToShopifyOrAppRoot_throws:
  "\<exists>error. snd (AuthStrategy_redirectToShopifyOrAppRoot p request hs :: 'a eff) = Inl error"
  by (cases "auth_getEmbeddedAppUrl (api p) request")
     (simp_all add: AuthStrategy_redirectToShopifyOrAppRoot_def Let_def eff_defs bind_eff_def)

lemma AuthStrategy_handleAuthCallbackRequest_try_throws:
  "\<exists>error. snd (AuthStrategy_handleAuthCallbackRequest_try p request shop :: 'a eff) = Inl error"
proof (cases "auth_callback (api p) request")
  case (Inl e)
  then show ?thesis
    by (simp add: AuthStrategy_handleAuthCallbackRequest_try_def eff_defs bind_eff_simps)
next
  case (Inr r)
  obtain session responseHeaders where r: "r = (session, responseHeaders)" by (cases r)
  from AuthStrategy_redirectToShopifyOrAppRoot_throws[of p request responseHeaders, where 'a='a]
  obtain x where x: "snd (AuthStrategy_redirectToShopifyOrAppRoot p request responseHeaders :: 'a eff) = Inl x" ..
  show ?thesis
    using Inr r x
    by (cases "storeSession (sessionStorage (config p)) session")
       (auto simp: AuthStrategy_handleAuthCallbackRequest_try_def eff_defs bind_eff_def
          beginAuth_def split: option.splits sum.splits)
qed

lemma AuthCodeFlowStrategy_handleAuthCallbackRequest_try_throws:
  "\<exists>error. snd (AuthCodeFlowStrategy_handleAuthCallbackRequest_try p request shop :: 'a eff) = Inl error"
proof (cases "auth_callback (api p) request")
  case (Inl e)
  then show ?thesis
    by (simp add: AuthCodeFlowStrategy_handleAuthCallbackRequest_try_def eff_defs bind_eff_simps)
next
  case (Inr r)
  obtain session responseHeaders where r: "r = (session, responseHeaders)" by (cases r)
  show ?thesis
    using Inr r
    by (cases "storeSession (sessionStorage (config p)) session")
       (auto simp: AuthCodeFlowStrategy_handleAuthCallbackRequest_try_def eff_defs bind_eff_def
          beginAuth_def triggerAfterAuthHook_def redirectToShopifyOrAppRoot_def
          split: option.splits sum.splits)
qed



lemma AuthStrategy_handleAuthCallbackRequest_try_online:
  assumes "auth_callback (api p) request = Inr (session, responseHeaders)"
    and "storeSession (sessionStorage (config p)) session = Inr stored"
    and "useOnlineTokens (config p)" and "\<not> session_isOnline session"
  shows "(AuthStrategy_handleAuthCallbackRequest_try p request shop :: 'a eff)
           = ([EvAuthCallback, EvStoreSession session, EvBeginAuth True (Some shop)],
              Inl (ThrownResponse (h_beginAuth (helpers p) request True (Some shop))))"
  using assms
  by (simp add: AuthStrategy_handleAuthCallbackRequest_try_def eff_defs bind_eff_simps
        beginAuth_def)

lemma AuthCodeFlowStrategy_handleAuthCallbackRequest_try_online:
  assumes "auth_callback (api p) request = Inr (session, responseHeaders)"
    and "storeSession (sessionStorage (config p)) session = Inr stored"
    and "useOnlineTokens (config p)" and "\<not> session_isOnline session"
  shows "(AuthCodeFlowStrategy_handleAuthCallbackRequest_try p request shop :: 'a eff)
           = ([EvAuthCallback, EvStoreSession session, EvBeginAuth True (Some shop)],
              Inl (ThrownResponse (h_beginAuth (helpers p) request True (Some shop))))"
  using assms
  by (simp add: AuthCodeFlowStrategy_handleAuthCallbackRequest_try_def eff_defs bind_eff_simps
        beginAuth_def)



text \<open>
  Claim C2. When \<open>api.auth.callback\<close> returns an offline session, the session is
  stored and the app uses online tokens, the handler's next call is
  \<open>beginAuth\<close> in online mode, and the response thrown by the callback request is
  that begin-flow redirect: neither the \<open>afterAuth\<close> hook nor the redirect to the
  app root or the platform admin is reached.
\<close>

theorem offline_callback_begins_online_flow:
  assumes "auth_callback (api p) request = Inr (session, responseHeaders)"
    and "storeSession (sessionStorage (config p)) session = Inr stored"
    and "useOnlineTokens (config p)" and "\<not> session_isOnline session"
  shows "(utils_sanitizeShop (api p) (searchParams_get request ''shop'') = Some shop \<and> shop \<noteq> [] \<longrightarrow>
           (AuthStrategy_handleAuthCallbackRequest p request :: 'a eff)
             = ([EvAuthCallback, EvStoreSession session, EvBeginAuth True (Some shop)],
                Inl (ThrownResponse (h_beginAuth (helpers p) request True (Some shop)))))
       \<and> (AuthCodeFlowStrategy_handleAuthCallbackRequest p request shop' :: 'a eff)
             = ([EvAuthCallback, EvStoreSession session, EvBeginAuth True (Some shop')],
                Inl (ThrownResponse (h_beginAuth (helpers p) request True (Some shop'))))"
proof (intro conjI impI)
  assume h: "utils_sanitizeShop (api p) (searchParams_get request ''shop'') = Some shop \<and> shop \<noteq> []"
  note t = AuthStrategy_handleAuthCallbackRequest_try_online[OF assms, where shop=shop and 'a='a]
  from h AuthStrategy_handleAuthCallbackRequest_thrown[of p request shop
          "ThrownResponse (h_beginAuth (helpers p) request True (Some shop))", where 'a='a]
  show "(AuthStrategy_handleAuthCallbackRequest p request :: 'a eff)
             = ([EvAuthCallback, EvStoreSession session, EvBeginAuth True (Some shop)],
                Inl (ThrownResponse (h_beginAuth (helpers p) request True (Some shop))))"
    by (simp add: t AuthStrategy_handleAuthCallbackRequest_catch_cases)
next
  note t = AuthCodeFlowStrategy_handleAuthCallbackRequest_try_online[OF assms, where shop=shop' and 'a='a]
  from AuthCodeFlowStrategy_handleAuthCallbackRequest_thrown[of p request shop'
          "ThrownResponse (h_beginAuth (helpers p) request True (Some shop'))", where 'a='a]
  show "(AuthCodeFlowStrategy_handleAuthCallbackRequest p request shop' :: 'a eff)
             = ([EvAuthCallback, EvStoreSession session, EvBeginAuth True (Some shop')],
                Inl (ThrownResponse (h_beginAuth (helpers p) request True (Some shop'))))"
    by (simp add: t AuthCodeFlowStrategy_handleAuthCallbackRequest_catch_cases)
qed

text \<open>Claim C2 at the installation that uses online tokens.\<close>

theorem offline_callback_begins_online_flow_witness:
  "(AuthStrategy_handleAuthCallbackRequest ex_params_online
      (ex_document_request ''/auth/callback'' []) :: unit eff)
     = ([EvAuthCallback, EvStoreSession ex_session, EvBeginAuth True (Some ''test.myshopify.com'')],
        Inl (ThrownResponse
               (redirect ''https://test.myshopify.com/admin/oauth/authorize?online'' [])))
   \<and> (AuthCodeFlowStrategy_handleAuthCallbackRequest ex_params_online
      (ex_document_request ''/auth/callback'' []) ''test.myshopify.com'' :: unit eff)
     = ([EvAuthCallback, EvStoreSession ex_session, EvBeginAuth True (Some ''test.myshopify.com'')],
        Inl (ThrownResponse
               (redirect ''https://test.myshopify.com/admin/oauth/authorize?online'' [])))"
  using offline_callback_begins_online_flow
          [of ex_params_online "ex_document_request ''/auth/callback'' []" ex_session "[]" True
              "''test.myshopify.com''" "''test.myshopify.com''", where 'a=unit]
  by (simp add: ex_params_def ex_api_def ex_config_def ex_helpers_def ex_storage_def
        ex_session_def ex_params_online_def ex_document_request_def searchParams_get_def)

subsection \<open>The liveness probe of the offline session\<close>

lemma AuthStrategy_ensureInstalledOnShop_catch_cases:
  "AuthStrategy_ensureInstalledOnShop_catch p request shop (HttpResponseError 401 txt) =
     ([EvBeginAuth False shop], Inl (ThrownResponse (h_beginAuth (helpers p) request False shop)))"
  "code \<noteq> 401 \<Longrightarrow> 200 \<le> code \<Longrightarrow> code \<le> 599 \<Longrightarrow> reason_phrase txt \<Longrightarrow>
   AuthStrategy_ensureInstalledOnShop_catch p request shop (HttpResponseError code txt) =
     ([], Inl (ThrownResponse \<lparr>status = code, statusText = txt, resp_headers = [],
                                resp_body = None\<rparr>))"
  "AuthStrategy_ensureInstalledOnShop_catch p request shop (GraphqlQueryError message) =
     ([], Inl (ThrownResponse \<lparr>status = 500, statusText = ''Internal Server Error'',
                                resp_headers = [], resp_body = None\<rparr>))"
  by (simp_all add: AuthStrategy_ensureInstalledOnShop_catch_def beginAuth_def eff_defs
        throw_new_Response_ok)

lemma AuthCodeFlowStrategy_handleInvalidOfflineSession_cases:
  "AuthCodeFlowStrategy_handleInvalidOfflineSession p (HttpResponseError 401 txt) request shop =
     ([EvBeginAuth False (Some shop)],
      Inl (ThrownResponse (h_beginAuth (helpers p) request False (Some shop))))"
  "code \<noteq> 401 \<Longrightarrow> 200 \<le> code \<Longrightarrow> code \<le> 599 \<Longrightarrow> reason_phrase txt \<Longrightarrow>
   AuthCodeFlowStrategy_handleInvalidOfflineSession p (HttpResponseError code txt) request shop =
     ([], Inl (ThrownResponse \<lparr>status = code, statusText = txt, resp_headers = [],
                                resp_body = None\<rparr>))"
  "AuthCodeFlowStrategy_handleInvalidOfflineSession p (GraphqlQueryError message) request shop =
     ([], Inl (ThrownResponse \<lparr>status = 500, statusText = ''Internal Server Error'',
                                resp_headers = [], resp_body = None\<rparr>))"
  by (simp_all add: AuthCodeFlowStrategy_handleInvalidOfflineSession_def beginAuth_def eff_defs
        throw_new_Response_ok)

lemma AuthStrategy_ensureInstalledOnShop_probe_fails:
  assumes "loadSession (sessionStorage (config p))
             (session_getOfflineId (api p) (searchParams_get request ''shop''))
             = Inr (Some offlineSession)"
    and "isEmbeddedApp (config p)"
    and "searchParams_get request ''embedded'' \<noteq> Some ''1''"
    and "clients_Graphql_query (api p) offlineSession = Some error"
  shows "AuthStrategy_ensureInstalledOnShop p request =
     ([EvLoadSession (session_getOfflineId (api p) (searchParams_get request ''shop'')),
       EvGraphqlQuery offlineSession]
        @ fst (AuthStrategy_ensureInstalledOnShop_catch p request
                 (searchParams_get request ''shop'') error),
      snd (AuthStrategy_ensureInstalledOnShop_catch p request
             (searchParams_get request ''shop'') error))"
  using assms
  by (simp add: AuthStrategy_ensureInstalledOnShop_def Let_def eff_defs bind_eff_simps
        try_catch_simps AuthStrategy_testSession_def)

lemma AuthCodeFlowStrategy_ensureInstalledOnShop_probe_fails:
  assumes "truthy (utils_sanitizeShop (api p) (searchParams_get request ''shop''))"
    and "truthy (utils_sanitizeHost (api p) (searchParams_get request ''host''))"
    and "AuthCodeFlowStrategy_offlineId p request = (t, Inr (Some offlineId))"
    and "offlineId \<noteq> []"
    and "loadSession (sessionStorage (config p)) offlineId = Inr (Some offlineSession)"
    and "isEmbeddedApp (config p)"
    and "searchParams_get request ''embedded'' \<noteq> Some ''1''"
    and "clients_Graphql_query (api p) offlineSession = Some error"
  shows "AuthCodeFlowStrategy_ensureInstalledOnShop p request =
     (t @ t @ [EvLoadSession offlineId, EvGraphqlQuery offlineSession]
        @ fst (AuthCodeFlowStrategy_handleInvalidOfflineSession p error request
                 (if truthy (searchParams_get request ''shop'')
                  then js_String (searchParams_get request ''shop'')
                  else session_shop offlineSession)),
      snd (AuthCodeFlowStrategy_handleInvalidOfflineSession p error request
                 (if truthy (searchParams_get request ''shop'')
                  then js_String (searchParams_get request ''shop'')
                  else session_shop offlineSession)))"
  using assms
  by (simp add: AuthCodeFlowStrategy_ensureInstalledOnShop_def Let_def eff_defs bind_eff_simps
        try_catch_simps AuthCodeFlowStrategy_testSession_def
        AuthCodeFlowStrategy_validateUrlParams_def AuthCodeFlowStrategy_hasValidOfflineId_def
        AuthCodeFlowStrategy_getOfflineSession_def truthy_def js_String_def)

text \<open>No function other than \<open>ensureInstalledOnShop\<close> runs the probe, and that one
  does not for a request with \<open>embedded=1\<close>.\<close>

lemma probe_free_bind_eff:
  assumes "probe_free m" and "\<And>x. snd m = Inr x \<Longrightarrow> probe_free (f x)"
  shows "probe_free (bind_eff m f)"
  using assms by (cases "snd m") (simp_all add: bind_eff_def probe_free_def)

lemma probe_free_try_catch:
  assumes "probe_free m" and "\<And>e. snd m = Inl e \<Longrightarrow> probe_free (h e)"
  shows "probe_free (try_catch m h)"
  using assms by (cases "snd m") (simp_all add: try_catch_def probe_free_def)

lemma probe_free_basic:
  "probe_free (ret x)"
  "probe_free (throw e)"
  "probe_free ([], r)"
  "probe_free (throw_new_Response b st txt hs)"
  "probe_free (new_Response b st txt hs)"
  by (simp_all add: probe_free_def eff_defs throw_new_Response_def new_Response_def bind_eff_def
        Let_def)

lemma probe_free_call:
  "(\<And>session. ev \<noteq> EvGraphqlQuery session) \<Longrightarrow> probe_free (call ev r)"
  by (auto simp: probe_free_def call_def)

lemma probe_free_helpers:
  "probe_free (beginAuth p request isOnline shop)"
  "probe_free (redirectWithExitIframe p request shop)"
  "probe_free (redirectToAuthPage p request shop)"
  "probe_free (rejectBotRequest p request)"
  "probe_free (validateSessionToken p token)"
  "probe_free (ensureAppIsEmbeddedIfRequired p request)"
  "probe_free (ensureSessionTokenSearchParamIfRequired p request)"
  "probe_free (redirectToShopifyOrAppRoot request p hs)"
  "probe_free (triggerAfterAuthHook p session request)"
  by (simp_all add: beginAuth_def redirectWithExitIframe_def redirectToAuthPage_def
        rejectBotRequest_def validateSessionToken_def ensureAppIsEmbeddedIfRequired_def
        ensureSessionTokenSearchParamIfRequired_def redirectToShopifyOrAppRoot_def
        triggerAfterAuthHook_def probe_free_call)

lemmas probe_free_intros = probe_free_bind_eff probe_free_try_catch probe_free_basic
  probe_free_call probe_free_helpers

lemma probe_free_AuthStrategy_1:
  "probe_free (AuthStrategy_respondToOptionsRequest request)"
  "probe_free (AuthStrategy_renderAppBridge p redirectTo)"
  "probe_free (AuthStrategy_ensureValidShopParam p request)"
  "probe_free (AuthStrategy_redirectToShopifyOrAppRoot p request hs)"
  "probe_free (AuthStrategy_validateUrlParams p request)"
  "probe_free (AuthStrategy_redirectToBouncePage p request)"
  "probe_free (AuthStrategy_loadSession p request shop sessionId)"
  by (auto simp: AuthStrategy_respondToOptionsRequest_def AuthStrategy_renderAppBridge_def
        AuthStrategy_ensureValidShopParam_def AuthStrategy_redirectToShopifyOrAppRoot_def
        AuthStrategy_validateUrlParams_def AuthStrategy_redirectToBouncePage_def
        AuthStrategy_loadSession_def Let_def
        intro!: probe_free_intros split: option.splits)

lemma probe_free_AuthStrategy_2:
  "probe_free (AuthStrategy_handleAuthBeginRequest p request)"
  "probe_free (AuthStrategy_ensureAppIsEmbeddedIfRequired p request)"
  "probe_free (AuthStrategy_ensureSessionTokenSearchParamIfRequired p request)"
  "probe_free (AuthStrategy_validateAuthenticatedSession p request payload)"
  "probe_free (AuthStrategy_handleAuthCallbackRequest_try p request shop')"
  by (auto simp: AuthStrategy_handleAuthBeginRequest_def
        AuthStrategy_ensureAppIsEmbeddedIfRequired_def
        AuthStrategy_ensureSessionTokenSearchParamIfRequired_def
        AuthStrategy_validateAuthenticatedSession_def
        AuthStrategy_handleAuthCallbackRequest_try_def Let_def
        intro!: probe_free_intros probe_free_AuthStrategy_1 split: option.splits prod.splits)

lemma probe_free_AuthStrategy_3:
  "probe_free (AuthStrategy_handleAuthCallbackRequest_catch p request error)"
  "probe_free (AuthStrategy_ensureSessionExists p request)"
  by (auto simp: AuthStrategy_handleAuthCallbackRequest_catch_def
        AuthStrategy_ensureSessionExists_def Let_def
        intro!: probe_free_intros probe_free_AuthStrategy_1 probe_free_AuthStrategy_2
        split: option.splits)

lemma probe_free_AuthStrategy_4:
  "probe_free (AuthStrategy_handleAuthCallbackRequest p request)"
  by (auto simp: AuthStrategy_handleAuthCallbackRequest_def
        intro!: probe_free_intros probe_free_AuthStrategy_1 probe_free_AuthStrategy_2
          probe_free_AuthStrategy_3)

lemma probe_free_AuthStrategy_ensureInstalledOnShop:
  assumes "searchParams_get request ''embedded'' = Some ''1''"
  shows "probe_free (AuthStrategy_ensureInstalledOnShop p request)"
  using assms
  by (auto simp: AuthStrategy_ensureInstalledOnShop_def Let_def
        intro!: probe_free_intros split: option.splits)

lemma probe_free_AuthStrategy_authenticateAndGetSessionContext:
  assumes "searchParams_get request ''embedded'' = Some ''1''"
  shows "probe_free (AuthStrategy_authenticateAndGetSessionContext p request)"
  by (auto simp: AuthStrategy_authenticateAndGetSessionContext_def Let_def
        intro!: probe_free_intros probe_free_AuthStrategy_1 probe_free_AuthStrategy_2
          probe_free_AuthStrategy_3 probe_free_AuthStrategy_4
          probe_free_AuthStrategy_ensureInstalledOnShop[OF assms])

lemma probe_free_AuthStrategy_authenticateAdmin:
  assumes "searchParams_get request ''embedded'' = Some ''1''"
  shows "probe_free (AuthStrategy_authenticateAdmin p request)"
  by (auto simp: AuthStrategy_authenticateAdmin_def Let_def
        intro!: probe_free_intros probe_free_AuthStrategy_1
          probe_free_AuthStrategy_authenticateAndGetSessionContext[OF assms]
        split: thrown.splits)


lemma probe_free_AuthCodeFlowStrategy_1:
  "probe_free (AuthCodeFlowStrategy_handleAuthBeginRequest p request shop)"
  "probe_free (AuthCodeFlowStrategy_validateUrlParams p request)"
  "probe_free (AuthCodeFlowStrategy_offlineId p request)"
  "probe_free (AuthCodeFlowStrategy_handleAuthCallbackRequest_try p request shop)"
  "probe_free (AuthCodeFlowStrategy_getSessionTokenContext p request sessionToken)"
  by (auto simp: AuthCodeFlowStrategy_handleAuthBeginRequest_def
        AuthCodeFlowStrategy_validateUrlParams_def AuthCodeFlowStrategy_offlineId_def
        AuthCodeFlowStrategy_handleAuthCallbackRequest_try_def
        AuthCodeFlowStrategy_getSessionTokenContext_def Let_def
        intro!: probe_free_intros split: option.splits prod.splits)

lemma probe_free_AuthCodeFlowStrategy_2:
  "probe_free (AuthCodeFlowStrategy_oauthCallbackError p error request shop)"
  "probe_free (AuthCodeFlowStrategy_hasValidOfflineId p request)"
  "probe_free (AuthCodeFlowStrategy_getOfflineSession p request)"
  "probe_free (AuthCodeFlowStrategy_authenticate p request sessionToken)"
  by (auto simp: AuthCodeFlowStrategy_oauthCallbackError_def
        AuthCodeFlowStrategy_hasValidOfflineId_def AuthCodeFlowStrategy_getOfflineSession_def
        AuthCodeFlowStrategy_authenticate_def Let_def
        intro!: probe_free_intros probe_free_AuthCodeFlowStrategy_1
        split: option.splits prod.splits)

lemma probe_free_AuthCodeFlowStrategy_3:
  "probe_free (AuthCodeFlowStrategy_handleAuthCallbackRequest_catch p request shop error)"
  by (auto simp: AuthCodeFlowStrategy_handleAuthCallbackRequest_catch_def
        intro!: probe_free_intros probe_free_AuthCodeFlowStrategy_2)

lemma probe_free_AuthCodeFlowStrategy_4:
  "probe_free (AuthCodeFlowStrategy_handleAuthCallbackRequest p request shop)"
  by (auto simp: AuthCodeFlowStrategy_handleAuthCallbackRequest_def
        intro!: probe_free_intros probe_free_AuthCodeFlowStrategy_1
          probe_free_AuthCodeFlowStrategy_3)

lemma probe_free_AuthCodeFlowStrategy_ensureInstalledOnShop:
  assumes "searchParams_get request ''embedded'' = Some ''1''"
  shows "probe_free (AuthCodeFlowStrategy_ensureInstalledOnShop p request)"
  using assms
  by (auto simp: AuthCodeFlowStrategy_ensureInstalledOnShop_def Let_def
        intro!: probe_free_intros probe_free_AuthCodeFlowStrategy_1
          probe_free_AuthCodeFlowStrategy_2
        split: option.splits)

lemma probe_free_AuthCodeFlowStrategy_respondToOAuthRequests:
  assumes "searchParams_get request ''embedded'' = Some ''1''"
  shows "probe_free (AuthCodeFlowStrategy_respondToOAuthRequests p request)"
  by (auto simp: AuthCodeFlowStrategy_respondToOAuthRequests_def Let_def
        intro!: probe_free_intros probe_free_AuthCodeFlowStrategy_1
          probe_free_AuthCodeFlowStrategy_4
          probe_free_AuthCodeFlowStrategy_ensureInstalledOnShop[OF assms]
        split: option.splits)

text \<open>
  A probe failure that is neither an \<open>HttpResponseError\<close> nor a
  \<open>GraphqlQueryError\<close> is swallowed: \<open>ensureInstalledOnShop\<close> returns and the
  authentication goes on.
\<close>

lemma ensureInstalledOnShop_other_error_swallowed:
  "AuthStrategy_ensureInstalledOnShop_catch p request shop (OtherError message) = ([], Inr ())"
  "AuthCodeFlowStrategy_handleInvalidOfflineSession p (OtherError message) request shop'
     = ([], Inr ())"
  by (simp_all add: AuthStrategy_ensureInstalledOnShop_catch_def
        AuthCodeFlowStrategy_handleInvalidOfflineSession_def eff_defs)

text \<open>
  A status text that is not a reason phrase makes the \<open>Response\<close> constructor
  throw: the \<open>catch\<close> clause of the probe then ends with a \<open>TypeError\<close>, not with
  a response.
\<close>

lemma probe_failure_invalid_statusText:
  assumes "code \<noteq> 401" and "200 \<le> code" and "code \<le> 599" and "\<not> reason_phrase phrase"
  shows "AuthStrategy_ensureInstalledOnShop_catch p request shop (HttpResponseError code phrase)
           = ([], Inl TypeError)"
    and "AuthCodeFlowStrategy_handleInvalidOfflineSession p (HttpResponseError code phrase)
           request shop' = ([], Inl TypeError)"
  using assms
  by (simp_all add: AuthStrategy_ensureInstalledOnShop_catch_def
        AuthCodeFlowStrategy_handleInvalidOfflineSession_def throw_new_Response_def
        new_Response_def Let_def eff_defs bind_eff_simps)

lemma reason_phrase_line_feed:
  "\<not> reason_phrase (''Service'' @ [CHR 0x0A] @ ''Unavailable'')"
  by (simp add: reason_phrase_def)

text \<open>
  A response thrown by the installation check of a document load is the response
  of the whole request: \<open>authenticateAdmin\<close> sets the CORS headers on it and
  throws it; \<open>respondToOAuthRequests\<close> throws it as it is.
\<close>

lemma AuthStrategy_authenticateAdmin_installed_throws:
  assumes "h_rejectBotRequest (helpers p) request = None"
    and "req_method request \<noteq> ''OPTIONS''"
    and "req_pathname request \<noteq> auth_patchSessionTokenPath (auth (config p))"
    and "req_pathname request \<noteq> auth_exitIframePath (auth (config p))"
    and "req_pathname request \<noteq> auth_callbackPath (auth (config p))"
    and "req_pathname request \<noteq> auth_path (auth (config p))"
    and "\<not> truthy (getSessionTokenHeader p request)"
    and "truthy (utils_sanitizeShop (api p) (searchParams_get request ''shop''))"
    and "isEmbeddedApp (config p) \<longrightarrow>
           truthy (utils_sanitizeHost (api p) (searchParams_get request ''host''))"
    and "AuthStrategy_ensureInstalledOnShop p request = (t, Inl (ThrownResponse r))"
  shows "AuthStrategy_authenticateAdmin p request =
           (EvRejectBotRequest # t,
            Inl (ThrownResponse (AuthStrategy_ensureCORSHeaders p request r)))"
proof -
  have "AuthStrategy_authenticateAndGetSessionContext p request = (t, Inl (ThrownResponse r))"
    unfolding AuthStrategy_document_load[OF assms(3-9)] assms(10)
    by (simp add: bind_eff_simps)
  from authenticateAdmin_response[OF assms(1,2) this] show ?thesis .
qed

lemma AuthCodeFlowStrategy_respondToOAuthRequests_installed_throws:
  assumes "req_pathname request \<noteq> auth_path (auth (config p))"
    and "req_pathname request \<noteq> auth_callbackPath (auth (config p))"
    and "\<not> truthy (getSessionTokenHeader p request)"
    and "AuthCodeFlowStrategy_ensureInstalledOnShop p request = (t, Inl x)"
  shows "AuthCodeFlowStrategy_respondToOAuthRequests p request = (t, Inl x)"
  using assms
  by (simp add: AuthCodeFlowStrategy_respondToOAuthRequests_def Let_def bind_eff_simps)

text \<open>
  Claim C3 as stated fails: a probe that fails with an \<open>HttpResponseError\<close> of
  code 403 ends the request with a 403 response, not a 500, in both classes; it
  is the response \<open>authenticateAdmin\<close> throws.
\<close>

theorem liveness_probe_status_counterexample:
  "isEmbeddedApp (config (ex_params_probe_fails (HttpResponseError 403 ''Forbidden'')))
   \<and> searchParams_get (ex_document_request ''/app'' []) ''embedded'' = None
   \<and> AuthStrategy_ensureInstalledOnShop
        (ex_params_probe_fails (HttpResponseError 403 ''Forbidden''))
        (ex_document_request ''/app'' [])
     = ([EvLoadSession ''offline_test.myshopify.com'', EvGraphqlQuery ex_session],
        Inl (ThrownResponse \<lparr>status = 403, statusText = ''Forbidden'',
                              resp_headers = [], resp_body = None\<rparr>))
   \<and> AuthCodeFlowStrategy_ensureInstalledOnShop
        (ex_params_probe_fails (HttpResponseError 403 ''Forbidden''))
        (ex_document_request ''/app'' [])
     = ([EvLoadSession ''offline_test.myshopify.com'', EvGraphqlQuery ex_session],
        Inl (ThrownResponse \<lparr>status = 403, statusText = ''Forbidden'',
                              resp_headers = [], resp_body = None\<rparr>))
   \<and> AuthCodeFlowStrategy_respondToOAuthRequests
        (ex_params_probe_fails (HttpResponseError 403 ''Forbidden''))
        (ex_document_request ''/app'' [])
     = ([EvLoadSession ''offline_test.myshopify.com'', EvGraphqlQuery ex_session],
        Inl (ThrownResponse \<lparr>status = 403, statusText = ''Forbidden'',
                              resp_headers = [], resp_body = None\<rparr>))
   \<and> AuthStrategy_authenticateAdmin
        (ex_params_probe_fails (HttpResponseError 403 ''Forbidden''))
        (ex_document_request ''/app'' [])
     = ([EvRejectBotRequest, EvLoadSession ''offline_test.myshopify.com'',
         EvGraphqlQuery ex_session],
        Inl (ThrownResponse
          \<lparr>status = 403, statusText = ''Forbidden'',
           resp_headers =
             [(''Access-Control-Allow-Origin'', ''*''),
              (''Access-Control-Allow-Headers'', ''Authorization''),
              (''Access-Control-Expose-Headers'',
               ''X-Shopify-API-Request-Failure-Reauthorize-Url'')],
           resp_body = None\<rparr>))"
proof -
  let ?p = "ex_params_probe_fails (HttpResponseError 403 ''Forbidden'')"
  let ?request = "ex_document_request ''/app'' []"
  have installed: "AuthStrategy_ensureInstalledOnShop ?p ?request
     = ([EvLoadSession ''offline_test.myshopify.com'', EvGraphqlQuery ex_session],
        Inl (ThrownResponse \<lparr>status = 403, statusText = ''Forbidden'',
                              resp_headers = [], resp_body = None\<rparr>))"
    by (simp add: ex_defs searchParams_get_def js_String_def
          AuthStrategy_ensureInstalledOnShop_probe_fails
          AuthStrategy_ensureInstalledOnShop_catch_cases)
  have installed': "AuthCodeFlowStrategy_ensureInstalledOnShop ?p ?request
     = ([EvLoadSession ''offline_test.myshopify.com'', EvGraphqlQuery ex_session],
        Inl (ThrownResponse \<lparr>status = 403, statusText = ''Forbidden'',
                              resp_headers = [], resp_body = None\<rparr>))"
    by (simp add: ex_defs searchParams_get_def js_String_def truthy_def
          AuthCodeFlowStrategy_ensureInstalledOnShop_probe_fails[where t="[]"
            and offlineId="''offline_test.myshopify.com''"]
          AuthCodeFlowStrategy_handleInvalidOfflineSession_cases
          AuthCodeFlowStrategy_offlineId_def eff_defs)
  have ctx_run: "AuthStrategy_authenticateAndGetSessionContext ?p ?request
     = ([EvLoadSession ''offline_test.myshopify.com'', EvGraphqlQuery ex_session],
        Inl (ThrownResponse \<lparr>status = 403, statusText = ''Forbidden'',
                              resp_headers = [], resp_body = None\<rparr>))"
    by (subst AuthStrategy_document_load)
       (simp_all add: installed bind_eff_simps,
        simp_all add: ex_defs getSessionTokenHeader_def searchParams_get_def truthy_def)
  have admin: "AuthStrategy_authenticateAdmin ?p ?request
     = ([EvRejectBotRequest, EvLoadSession ''offline_test.myshopify.com'',
         EvGraphqlQuery ex_session],
        Inl (ThrownResponse
          \<lparr>status = 403, statusText = ''Forbidden'',
           resp_headers =
             [(''Access-Control-Allow-Origin'', ''*''),
              (''Access-Control-Allow-Headers'', ''Authorization''),
              (''Access-Control-Expose-Headers'',
               ''X-Shopify-API-Request-Failure-Reauthorize-Url'')],
           resp_body = None\<rparr>))"
    by (subst authenticateAdmin_response[OF _ _ ctx_run])
       (simp_all add: ex_defs AuthStrategy_ensureCORSHeaders_def headers_get_def headers_set_def)
  have respond: "AuthCodeFlowStrategy_respondToOAuthRequests ?p ?request
     = ([EvLoadSession ''offline_test.myshopify.com'', EvGraphqlQuery ex_session],
        Inl (ThrownResponse \<lparr>status = 403, statusText = ''Forbidden'',
                              resp_headers = [], resp_body = None\<rparr>))"
    by (rule AuthCodeFlowStrategy_respondToOAuthRequests_installed_throws[OF _ _ _ installed'])
       (simp_all add: ex_defs getSessionTokenHeader_def truthy_def)
  from installed installed' respond admin show ?thesis
    by (simp add: ex_defs searchParams_get_def)
qed

text \<open>
  What \<open>ensureInstalledOnShop\<close> does with a probe that fails, in both classes, and
  the runs without probe.
\<close>

lemma ensureInstalledOnShop_probe_failure_mapping:
  "(loadSession (sessionStorage (config p))
        (session_getOfflineId (api p) (searchParams_get request ''shop''))
        = Inr (Some offlineSession)
      \<and> isEmbeddedApp (config p)
      \<and> searchParams_get request ''embedded'' \<noteq> Some ''1''
      \<and> clients_Graphql_query (api p) offlineSession = Some error \<longrightarrow>
      (error = HttpResponseError 401 phrase \<longrightarrow>
         AuthStrategy_ensureInstalledOnShop p request =
           ([EvLoadSession (session_getOfflineId (api p) (searchParams_get request ''shop'')),
             EvGraphqlQuery offlineSession,
             EvBeginAuth False (searchParams_get request ''shop'')],
            Inl (ThrownResponse
                   (h_beginAuth (helpers p) request False (searchParams_get request ''shop'')))))
    \<and> (error = HttpResponseError code phrase \<and> code \<noteq> 401 \<and> 200 \<le> code \<and> code \<le> 599
          \<and> reason_phrase phrase \<longrightarrow>
         AuthStrategy_ensureInstalledOnShop p request =
           ([EvLoadSession (session_getOfflineId (api p) (searchParams_get request ''shop'')),
             EvGraphqlQuery offlineSession],
            Inl (ThrownResponse \<lparr>status = code, statusText = phrase, resp_headers = [],
                                  resp_body = None\<rparr>)))
    \<and> (error = GraphqlQueryError message \<longrightarrow>
         AuthStrategy_ensureInstalledOnShop p request =
           ([EvLoadSession (session_getOfflineId (api p) (searchParams_get request ''shop'')),
             EvGraphqlQuery offlineSession],
            Inl (ThrownResponse \<lparr>status = 500, statusText = ''Internal Server Error'',
                                  resp_headers = [], resp_body = None\<rparr>))))
   \<and> (truthy (utils_sanitizeShop (api p) (searchParams_get request ''shop''))
      \<and> truthy (utils_sanitizeHost (api p) (searchParams_get request ''host''))
      \<and> AuthCodeFlowStrategy_offlineId p request = (t, Inr (Some offlineId))
      \<and> offlineId \<noteq> []
      \<and> loadSession (sessionStorage (config p)) offlineId = Inr (Some offlineSession)
      \<and> isEmbeddedApp (config p)
      \<and> searchParams_get request ''embedded'' \<noteq> Some ''1''
      \<and> clients_Graphql_query (api p) offlineSession = Some error \<longrightarrow>
      (error = HttpResponseError 401 phrase \<longrightarrow>
         AuthCodeFlowStrategy_ensureInstalledOnShop p request =
           (t @ t @ [EvLoadSession offlineId, EvGraphqlQuery offlineSession,
             EvBeginAuth False
               (Some (if truthy (searchParams_get request ''shop'')
                      then js_String (searchParams_get request ''shop'')
                      else session_shop offlineSession))],
            Inl (ThrownResponse
                   (h_beginAuth (helpers p) request False
                      (Some (if truthy (searchParams_get request ''shop'')
                             then js_String (searchParams_get request ''shop'')
                             else session_shop offlineSession))))))
    \<and> (error = HttpResponseError code phrase \<and> code \<noteq> 401 \<and> 200 \<le> code \<and> code \<le> 599
          \<and> reason_phrase phrase \<longrightarrow>
         AuthCodeFlowStrategy_ensureInstalledOnShop p request =
           (t @ t @ [EvLoadSession offlineId, EvGraphqlQuery offlineSession],
            Inl (ThrownResponse \<lparr>status = code, statusText = phrase, resp_headers = [],
                                  resp_body = None\<rparr>)))
    \<and> (error = GraphqlQueryError message \<longrightarrow>
         AuthCodeFlowStrategy_ensureInstalledOnShop p request =
           (t @ t @ [EvLoadSession offlineId, EvGraphqlQuery offlineSession],
            Inl (ThrownResponse \<lparr>status = 500, statusText = ''Internal Server Error'',
                                  resp_headers = [], resp_body = None\<rparr>))))
   \<and> (searchParams_get request ''embedded'' = Some ''1'' \<longrightarrow>
        EvGraphqlQuery s \<notin> set (fst (AuthStrategy_authenticateAdmin p request))
      \<and> EvGraphqlQuery s \<notin> set (fst (AuthCodeFlowStrategy_respondToOAuthRequests p request))
      \<and> EvGraphqlQuery s \<notin> set (fst (AuthCodeFlowStrategy_authenticate p request sessionToken)))"
proof (intro conjI impI)
  assume h: "loadSession (sessionStorage (config p))
        (session_getOfflineId (api p) (searchParams_get request ''shop''))
        = Inr (Some offlineSession)
      \<and> isEmbeddedApp (config p)
      \<and> searchParams_get request ''embedded'' \<noteq> Some ''1''
      \<and> clients_Graphql_query (api p) offlineSession = Some error"
  then have eq: "AuthStrategy_ensureInstalledOnShop p request =
     ([EvLoadSession (session_getOfflineId (api p) (searchParams_get request ''shop'')),
       EvGraphqlQuery offlineSession]
        @ fst (AuthStrategy_ensureInstalledOnShop_catch p request
                 (searchParams_get request ''shop'') error),
      snd (AuthStrategy_ensureInstalledOnShop_catch p request
             (searchParams_get request ''shop'') error))"
    by (intro AuthStrategy_ensureInstalledOnShop_probe_fails) simp_all
  { assume "error = HttpResponseError 401 phrase"
    then show "AuthStrategy_ensureInstalledOnShop p request =
           ([EvLoadSession (session_getOfflineId (api p) (searchParams_get request ''shop'')),
             EvGraphqlQuery offlineSession,
             EvBeginAuth False (searchParams_get request ''shop'')],
            Inl (ThrownResponse
                   (h_beginAuth (helpers p) request False (searchParams_get request ''shop''))))"
      by (simp add: eq AuthStrategy_ensureInstalledOnShop_catch_cases) }
  { assume "error = HttpResponseError code phrase \<and> code \<noteq> 401 \<and> 200 \<le> code \<and> code \<le> 599
          \<and> reason_phrase phrase"
    then show "AuthStrategy_ensureInstalledOnShop p request =
           ([EvLoadSession (session_getOfflineId (api p) (searchParams_get request ''shop'')),
             EvGraphqlQuery offlineSession],
            Inl (ThrownResponse \<lparr>status = code, statusText = phrase, resp_headers = [],
                                  resp_body = None\<rparr>))"
      by (simp add: eq AuthStrategy_ensureInstalledOnShop_catch_cases) }
  { assume "error = GraphqlQueryError message"
    then show "AuthStrategy_ensureInstalledOnShop p request =
           ([EvLoadSession (session_getOfflineId (api p) (searchParams_get request ''shop'')),
             EvGraphqlQuery offlineSession],
            Inl (ThrownResponse \<lparr>status = 500, statusText = ''Internal Server Error'',
                                  resp_headers = [], resp_body = None\<rparr>))"
      by (simp add: eq AuthStrategy_ensureInstalledOnShop_catch_cases) }
next
  assume h: "truthy (utils_sanitizeShop (api p) (searchParams_get request ''shop''))
      \<and> truthy (utils_sanitizeHost (api p) (searchParams_get request ''host''))
      \<and> AuthCodeFlowStrategy_offlineId p request = (t, Inr (Some offlineId))
      \<and> offlineId \<noteq> []
      \<and> loadSession (sessionStorage (config p)) offlineId = Inr (Some offlineSession)
      \<and> isEmbeddedApp (config p)
      \<and> searchParams_get request ''embedded'' \<noteq> Some ''1''
      \<and> clients_Graphql_query (api p) offlineSession = Some error"
  let ?shop = "if truthy (searchParams_get request ''shop'')
               then js_String (searchParams_get request ''shop'')
               else session_shop offlineSession"
  from h have eq: "AuthCodeFlowStrategy_ensureInstalledOnShop p request =
     (t @ t @ [EvLoadSession offlineId, EvGraphqlQuery offlineSession]
        @ fst (AuthCodeFlowStrategy_handleInvalidOfflineSession p error request ?shop),
      snd (AuthCodeFlowStrategy_handleInvalidOfflineSession p error request ?shop))"
    by (intro AuthCodeFlowStrategy_ensureInstalledOnShop_probe_fails) simp_all
  { assume "error = HttpResponseError 401 phrase"
    then show "AuthCodeFlowStrategy_ensureInstalledOnShop p request =
           (t @ t @ [EvLoadSession offlineId, EvGraphqlQuery offlineSession,
             EvBeginAuth False (Some ?shop)],
            Inl (ThrownResponse (h_beginAuth (helpers p) request False (Some ?shop))))"
      by (simp add: eq AuthCodeFlowStrategy_handleInvalidOfflineSession_cases) }
  { assume "error = HttpResponseError code phrase \<and> code \<noteq> 401 \<and> 200 \<le> code \<and> code \<le> 599
          \<and> reason_phrase phrase"
    then show "AuthCodeFlowStrategy_ensureInstalledOnShop p request =
           (t @ t @ [EvLoadSession offlineId, EvGraphqlQuery offlineSession],
            Inl (ThrownResponse \<lparr>status = code, statusText = phrase, resp_headers = [],
                                  resp_body = None\<rparr>))"
      by (simp add: eq AuthCodeFlowStrategy_handleInvalidOfflineSession_cases) }
  { assume "error = GraphqlQueryError message"
    then show "AuthCodeFlowStrategy_ensureInstalledOnShop p request =
           (t @ t @ [EvLoadSession offlineId, EvGraphqlQuery offlineSession],
            Inl (ThrownResponse \<lparr>status = 500, statusText = ''Internal Server Error'',
                                  resp_headers = [], resp_body = None\<rparr>))"
      by (simp add: eq AuthCodeFlowStrategy_handleInvalidOfflineSession_cases) }
next
  assume "searchParams_get request ''embedded'' = Some ''1''"
  from probe_free_AuthStrategy_authenticateAdmin[OF this, of p]
  show "EvGraphqlQuery s \<notin> set (fst (AuthStrategy_authenticateAdmin p request))"
    by (simp add: probe_free_def)
next
  assume "searchParams_get request ''embedded'' = Some ''1''"
  from probe_free_AuthCodeFlowStrategy_respondToOAuthRequests[OF this, of p]
  show "EvGraphqlQuery s \<notin> set (fst (AuthCodeFlowStrategy_respondToOAuthRequests p request))"
    by (simp add: probe_free_def)
next
  from probe_free_AuthCodeFlowStrategy_2(4)[of p request sessionToken]
  show "EvGraphqlQuery s \<notin> set (fst (AuthCodeFlowStrategy_authenticate p request sessionToken))"
    by (simp add: probe_free_def)
qed

text \<open>
  Claim C3, as amended. For an embedded app and a document load without
  \<open>embedded=1\<close> that reaches the probe (the bot detector lets it through, its
  method is not \<open>OPTIONS\<close>, its path is none of the auth paths, it has no session
  token header, its \<open>shop\<close> and \<open>host\<close> parameters pass validation) and whose
  stored offline session fails the probe, the response \<open>authenticateAdmin\<close> throws
  is: for an \<open>HttpResponseError\<close> of code 401, the begin-flow redirect; for an
  \<open>HttpResponseError\<close> of any other code that is a response status (200..599),
  with a status text that is a reason phrase, a response with that code and that
  status text; for a \<open>GraphqlQueryError\<close>, a 500 response (each with the CORS
  headers set when the request is cross-origin). The entry point of
  \<open>AuthCodeFlowStrategy\<close>, \<open>respondToOAuthRequests\<close>, throws the same three
  responses. For a request with \<open>embedded=1\<close> no run of the state machine
  contains the probe.
\<close>

theorem liveness_probe_failure_mapping:
  "(h_rejectBotRequest (helpers p) request = None
      \<and> req_method request \<noteq> ''OPTIONS''
      \<and> req_pathname request \<noteq> auth_patchSessionTokenPath (auth (config p))
      \<and> req_pathname request \<noteq> auth_exitIframePath (auth (config p))
      \<and> req_pathname request \<noteq> auth_callbackPath (auth (config p))
      \<and> req_pathname request \<noteq> auth_path (auth (config p))
      \<and> \<not> truthy (getSessionTokenHeader p request)
      \<and> truthy (utils_sanitizeShop (api p) (searchParams_get request ''shop''))
      \<and> truthy (utils_sanitizeHost (api p) (searchParams_get request ''host''))
      \<and> loadSession (sessionStorage (config p))
            (session_getOfflineId (api p) (searchParams_get request ''shop''))
            = Inr (Some offlineSession)
      \<and> isEmbeddedApp (config p)
      \<and> searchParams_get request ''embedded'' \<noteq> Some ''1''
      \<and> clients_Graphql_query (api p) offlineSession = Some error \<longrightarrow>
      (error = HttpResponseError 401 phrase \<longrightarrow>
         AuthStrategy_authenticateAdmin p request =
           ([EvRejectBotRequest,
             EvLoadSession (session_getOfflineId (api p) (searchParams_get request ''shop'')),
             EvGraphqlQuery offlineSession,
             EvBeginAuth False (searchParams_get request ''shop'')],
            Inl (ThrownResponse
                   (AuthStrategy_ensureCORSHeaders p request
                      (h_beginAuth (helpers p) request False
                         (searchParams_get request ''shop''))))))
    \<and> (error = HttpResponseError code phrase \<and> code \<noteq> 401 \<and> 200 \<le> code \<and> code \<le> 599
          \<and> reason_phrase phrase \<longrightarrow>
         AuthStrategy_authenticateAdmin p request =
           ([EvRejectBotRequest,
             EvLoadSession (session_getOfflineId (api p) (searchParams_get request ''shop'')),
             EvGraphqlQuery offlineSession],
            Inl (ThrownResponse
                   (AuthStrategy_ensureCORSHeaders p request
                      \<lparr>status = code, statusText = phrase, resp_headers = [],
                       resp_body = None\<rparr>))))
    \<and> (error = GraphqlQueryError message \<longrightarrow>
         AuthStrategy_authenticateAdmin p request =
           ([EvRejectBotRequest,
             EvLoadSession (session_getOfflineId (api p) (searchParams_get request ''shop'')),
             EvGraphqlQuery offlineSession],
            Inl (ThrownResponse
                   (AuthStrategy_ensureCORSHeaders p request
                      \<lparr>status = 500, statusText = ''Internal Server Error'',
                       resp_headers = [], resp_body = None\<rparr>)))))
   \<and> (req_pathname request \<noteq> auth_path (auth (config p))
      \<and> req_pathname request \<noteq> auth_callbackPath (auth (config p))
      \<and> \<not> truthy (getSessionTokenHeader p request)
      \<and> truthy (utils_sanitizeShop (api p) (searchParams_get request ''shop''))
      \<and> truthy (utils_sanitizeHost (api p) (searchParams_get request ''host''))
      \<and> AuthCodeFlowStrategy_offlineId p request = (t, Inr (Some offlineId))
      \<and> offlineId \<noteq> []
      \<and> loadSession (sessionStorage (config p)) offlineId = Inr (Some offlineSession)
      \<and> isEmbeddedApp (config p)
      \<and> searchParams_get request ''embedded'' \<noteq> Some ''1''
      \<and> clients_Graphql_query (api p) offlineSession = Some error \<longrightarrow>
      (error = HttpResponseError 401 phrase \<longrightarrow>
         AuthCodeFlowStrategy_respondToOAuthRequests p request =
           (t @ t @ [EvLoadSession offlineId, EvGraphqlQuery offlineSession,
             EvBeginAuth False
               (Some (if truthy (searchParams_get request ''shop'')
                      then js_String (searchParams_get request ''shop'')
                      else session_shop offlineSession))],
            Inl (ThrownResponse
                   (h_beginAuth (helpers p) request False
                      (Some (if truthy (searchParams_get request ''shop'')
                             then js_String (searchParams_get request ''shop'')
                             else session_shop offlineSession))))))
    \<and> (error = HttpResponseError code phrase \<and> code \<noteq> 401 \<and> 200 \<le> code \<and> code \<le> 599
          \<and> reason_phrase phrase \<longrightarrow>
         AuthCodeFlowStrategy_respondToOAuthRequests p request =
           (t @ t @ [EvLoadSession offlineId, EvGraphqlQuery offlineSession],
            Inl (ThrownResponse \<lparr>status = code, statusText = phrase, resp_headers = [],
                                  resp_body = None\<rparr>)))
    \<and> (error = GraphqlQueryError message \<longrightarrow>
         AuthCodeFlowStrategy_respondToOAuthRequests p request =
           (t @ t @ [EvLoadSession offlineId, EvGraphqlQuery offlineSession],
            Inl (ThrownResponse \<lparr>status = 500, statusText = ''Internal Server Error'',
                                  resp_headers = [], resp_body = None\<rparr>))))
   \<and> (searchParams_get request ''embedded'' = Some ''1'' \<longrightarrow>
        EvGraphqlQuery s \<notin> set (fst (AuthStrategy_authenticateAdmin p request))
      \<and> EvGraphqlQuery s \<notin> set (fst (AuthCodeFlowStrategy_respondToOAuthRequests p request))
      \<and> EvGraphqlQuery s \<notin> set (fst (AuthCodeFlowStrategy_authenticate p request sessionToken)))"
proof -
  note base = ensureInstalledOnShop_probe_failure_mapping
    [of p request offlineSession error phrase code message t offlineId s sessionToken]
  have AS: "AuthStrategy_authenticateAdmin p request =
           (EvRejectBotRequest # tr,
            Inl (ThrownResponse (AuthStrategy_ensureCORSHeaders p request r)))"
    if "h_rejectBotRequest (helpers p) request = None
      \<and> req_method request \<noteq> ''OPTIONS''
      \<and> req_pathname request \<noteq> auth_patchSessionTokenPath (auth (config p))
      \<and> req_pathname request \<noteq> auth_exitIframePath (auth (config p))
      \<and> req_pathname request \<noteq> auth_callbackPath (auth (config p))
      \<and> req_pathname request \<noteq> auth_path (auth (config p))
      \<and> \<not> truthy (getSessionTokenHeader p request)
      \<and> truthy (utils_sanitizeShop (api p) (searchParams_get request ''shop''))
      \<and> truthy (utils_sanitizeHost (api p) (searchParams_get request ''host''))
      \<and> loadSession (sessionStorage (config p))
            (session_getOfflineId (api p) (searchParams_get request ''shop''))
            = Inr (Some offlineSession)
      \<and> isEmbeddedApp (config p)
      \<and> searchParams_get request ''embedded'' \<noteq> Some ''1''
      \<and> clients_Graphql_query (api p) offlineSession = Some error"
      and "AuthStrategy_ensureInstalledOnShop p request = (tr, Inl (ThrownResponse r))"
    for tr r
    using that by (intro AuthStrategy_authenticateAdmin_installed_throws) simp_all
  have ACF: "AuthCodeFlowStrategy_respondToOAuthRequests p request = (tr, Inl x)"
    if "req_pathname request \<noteq> auth_path (auth (config p))
      \<and> req_pathname request \<noteq> auth_callbackPath (auth (config p))
      \<and> \<not> truthy (getSessionTokenHeader p request)
      \<and> truthy (utils_sanitizeShop (api p) (searchParams_get request ''shop''))
      \<and> truthy (utils_sanitizeHost (api p) (searchParams_get request ''host''))
      \<and> AuthCodeFlowStrategy_offlineId p request = (t, Inr (Some offlineId))
      \<and> offlineId \<noteq> []
      \<and> loadSession (sessionStorage (config p)) offlineId = Inr (Some offlineSession)
      \<and> isEmbeddedApp (config p)
      \<and> searchParams_get request ''embedded'' \<noteq> Some ''1''
      \<and> clients_Graphql_query (api p) offlineSession = Some error"
      and "AuthCodeFlowStrategy_ensureInstalledOnShop p request = (tr, Inl x)"
    for tr x
    using that by (intro AuthCodeFlowStrategy_respondToOAuthRequests_installed_throws) simp_all
  show ?thesis
  proof (intro conjI impI)
    assume h: "h_rejectBotRequest (helpers p) request = None
      \<and> req_method request \<noteq> ''OPTIONS''
      \<and> req_pathname request \<noteq> auth_patchSessionTokenPath (auth (config p))
      \<and> req_pathname request \<noteq> auth_exitIframePath (auth (config p))
      \<and> req_pathname request \<noteq> auth_callbackPath (auth (config p))
      \<and> req_pathname request \<noteq> auth_path (auth (config p))
      \<and> \<not> truthy (getSessionTokenHeader p request)
      \<and> truthy (utils_sanitizeShop (api p) (searchParams_get request ''shop''))
      \<and> truthy (utils_sanitizeHost (api p) (searchParams_get request ''host''))
      \<and> loadSession (sessionStorage (config p))
            (session_getOfflineId (api p) (searchParams_get request ''shop''))
            = Inr (Some offlineSession)
      \<and> isEmbeddedApp (config p)
      \<and> searchParams_get request ''embedded'' \<noteq> Some ''1''
      \<and> clients_Graphql_query (api p) offlineSession = Some error"
    { assume e: "error = HttpResponseError 401 phrase"
      from h e base show "AuthStrategy_authenticateAdmin p request =
           ([EvRejectBotRequest,
             EvLoadSession (session_getOfflineId (api p) (searchParams_get request ''shop'')),
             EvGraphqlQuery offlineSession,
             EvBeginAuth False (searchParams_get request ''shop'')],
            Inl (ThrownResponse
                   (AuthStrategy_ensureCORSHeaders p request
                      (h_beginAuth (helpers p) request False
                         (searchParams_get request ''shop'')))))"
        by (subst AS[OF h]) simp_all }
    { assume e: "error = HttpResponseError code phrase \<and> code \<noteq> 401 \<and> 200 \<le> code \<and> code \<le> 599
          \<and> reason_phrase phrase"
      from h e base show "AuthStrategy_authenticateAdmin p request =
           ([EvRejectBotRequest,
             EvLoadSession (session_getOfflineId (api p) (searchParams_get request ''shop'')),
             EvGraphqlQuery offlineSession],
            Inl (ThrownResponse
                   (AuthStrategy_ensureCORSHeaders p request
                      \<lparr>status = code, statusText = phrase, resp_headers = [],
                       resp_body = None\<rparr>)))"
        by (subst AS[OF h]) simp_all }
    { assume e: "error = GraphqlQueryError message"
      from h e base show "AuthStrategy_authenticateAdmin p request =
           ([EvRejectBotRequest,
             EvLoadSession (session_getOfflineId (api p) (searchParams_get request ''shop'')),
             EvGraphqlQuery offlineSession],
            Inl (ThrownResponse
                   (AuthStrategy_ensureCORSHeaders p request
                      \<lparr>status = 500, statusText = ''Internal Server Error'',
                       resp_headers = [], resp_body = None\<rparr>)))"
        by (subst AS[OF h]) simp_all }
  next
    assume h: "req_pathname request \<noteq> auth_path (auth (config p))
      \<and> req_pathname request \<noteq> auth_callbackPath (auth (config p))
      \<and> \<not> truthy (getSessionTokenHeader p request)
      \<and> truthy (utils_sanitizeShop (api p) (searchParams_get request ''shop''))
      \<and> truthy (utils_sanitizeHost (api p) (searchParams_get request ''host''))
      \<and> AuthCodeFlowStrategy_offlineId p request = (t, Inr (Some offlineId))
      \<and> offlineId \<noteq> []
      \<and> loadSession (sessionStorage (config p)) offlineId = Inr (Some offlineSession)
      \<and> isEmbeddedApp (config p)
      \<and> searchParams_get request ''embedded'' \<noteq> Some ''1''
      \<and> clients_Graphql_query (api p) offlineSession = Some error"
    let ?shop = "if truthy (searchParams_get request ''shop'')
                 then js_String (searchParams_get request ''shop'')
                 else session_shop offlineSession"
    { assume e: "error = HttpResponseError 401 phrase"
      from h e base show "AuthCodeFlowStrategy_respondToOAuthRequests p request =
           (t @ t @ [EvLoadSession offlineId, EvGraphqlQuery offlineSession,
             EvBeginAuth False (Some ?shop)],
            Inl (ThrownResponse (h_beginAuth (helpers p) request False (Some ?shop))))"
        by (subst ACF[OF h]) simp_all }
    { assume e: "error = HttpResponseError code phrase \<and> code \<noteq> 401 \<and> 200 \<le> code \<and> code \<le> 599
          \<and> reason_phrase phrase"
      from h e base show "AuthCodeFlowStrategy_respondToOAuthRequests p request =
           (t @ t @ [EvLoadSession offlineId, EvGraphqlQuery offlineSession],
            Inl (ThrownResponse \<lparr>status = code, statusText = phrase, resp_headers = [],
                                  resp_body = None\<rparr>))"
        by (subst ACF[OF h]) simp_all }
    { assume e: "error = GraphqlQueryError message"
      from h e base show "AuthCodeFlowStrategy_respondToOAuthRequests p request =
           (t @ t @ [EvLoadSession offlineId, EvGraphqlQuery offlineSession],
            Inl (ThrownResponse \<lparr>status = 500, statusText = ''Internal Server Error'',
                                  resp_headers = [], resp_body = None\<rparr>))"
        by (subst ACF[OF h]) simp_all }
  next
    assume "searchParams_get request ''embedded'' = Some ''1''"
    with base show "EvGraphqlQuery s \<notin> set (fst (AuthStrategy_authenticateAdmin p request))"
      by simp
  next
    assume "searchParams_get request ''embedded'' = Some ''1''"
    with base
    show "EvGraphqlQuery s \<notin> set (fst (AuthCodeFlowStrategy_respondToOAuthRequests p request))"
      by simp
  next
    assume "searchParams_get request ''embedded'' = Some ''1''"
    with base
    show "EvGraphqlQuery s \<notin> set (fst (AuthCodeFlowStrategy_authenticate p request sessionToken))"
      by simp
  qed
qed

text \<open>Claim C3, as amended, at probes failing with 401, 429 and a GraphQL error.\<close>

theorem liveness_probe_failure_mapping_witness:
  "AuthStrategy_authenticateAdmin
     (ex_params_probe_fails (HttpResponseError 401 ''Unauthorized''))
     (ex_document_request ''/app'' [])
     = ([EvRejectBotRequest, EvLoadSession ''offline_test.myshopify.com'',
         EvGraphqlQuery ex_session, EvBeginAuth False (Some ''test.myshopify.com'')],
        Inl (ThrownResponse
          \<lparr>status = 302, statusText = [],
           resp_headers =
             [(''Location'', ''https://test.myshopify.com/admin/oauth/authorize''),
              (''Access-Control-Allow-Origin'', ''*''),
              (''Access-Control-Allow-Headers'', ''Authorization''),
              (''Access-Control-Expose-Headers'',
               ''X-Shopify-API-Request-Failure-Reauthorize-Url'')],
           resp_body = None\<rparr>))
   \<and> AuthCodeFlowStrategy_respondToOAuthRequests
     (ex_params_probe_fails (HttpResponseError 429 ''Too Many Requests''))
     (ex_document_request ''/app'' [])
     = ([EvLoadSession ''offline_test.myshopify.com'', EvGraphqlQuery ex_session],
        Inl (ThrownResponse \<lparr>status = 429, statusText = ''Too Many Requests'',
                              resp_headers = [], resp_body = None\<rparr>))
   \<and> AuthStrategy_authenticateAdmin
     (ex_params_probe_fails (GraphqlQueryError ''Throttled''))
     (ex_document_request ''/app'' [])
     = ([EvRejectBotRequest, EvLoadSession ''offline_test.myshopify.com'',
         EvGraphqlQuery ex_session],
        Inl (ThrownResponse
          \<lparr>status = 500, statusText = ''Internal Server Error'',
           resp_headers =
             [(''Access-Control-Allow-Origin'', ''*''),
              (''Access-Control-Allow-Headers'', ''Authorization''),
              (''Access-Control-Expose-Headers'',
               ''X-Shopify-API-Request-Failure-Reauthorize-Url'')],
           resp_body = None\<rparr>))
   \<and> EvGraphqlQuery ex_session \<notin> set (fst (AuthStrategy_authenticateAdmin
        (ex_params_probe_fails (HttpResponseError 401 ''Unauthorized''))
        (ex_document_request ''/app'' [(''embedded'', ''1'')])))"
  using liveness_probe_failure_mapping
          [where p="ex_params_probe_fails (HttpResponseError 401 ''Unauthorized'')"
             and request="ex_document_request ''/app'' []" and offlineSession=ex_session
             and error="HttpResponseError 401 ''Unauthorized''" and phrase="''Unauthorized''"]
        liveness_probe_failure_mapping
          [where p="ex_params_probe_fails (HttpResponseError 429 ''Too Many Requests'')"
             and request="ex_document_request ''/app'' []" and offlineSession=ex_session
             and error="HttpResponseError 429 ''Too Many Requests''"
             and phrase="''Too Many Requests''" and code=429 and t="[]"
             and offlineId="''offline_test.myshopify.com''"]
        liveness_probe_failure_mapping
          [where p="ex_params_probe_fails (GraphqlQueryError ''Throttled'')"
             and request="ex_document_request ''/app'' []" and offlineSession=ex_session
             and error="GraphqlQueryError ''Throttled''" and message="''Throttled''"]
        liveness_probe_failure_mapping
          [where p="ex_params_probe_fails (HttpResponseError 401 ''Unauthorized'')"
             and request="ex_document_request ''/app'' [(''embedded'', ''1'')]"
             and s=ex_session]
  by (simp add: ex_params_def ex_api_def ex_config_def ex_helpers_def ex_storage_def ex_auth_def
        ex_params_installed_def ex_params_probe_fails_def ex_document_request_def
        getSessionTokenHeader_def AuthStrategy_ensureCORSHeaders_def headers_get_def
        headers_set_def redirect_def
        searchParams_get_def js_String_def truthy_def AuthCodeFlowStrategy_offlineId_def eff_defs)

subsection \<open>Shops without an offline session\<close>

lemma AuthStrategy_ensureInstalledOnShop_not_installed:
  assumes "loadSession (sessionStorage (config p))
             (session_getOfflineId (api p) (searchParams_get request ''shop'')) = Inr None"
  shows "AuthStrategy_ensureInstalledOnShop p request =
     (if searchParams_get request ''embedded'' = Some ''1''
      then ([EvLoadSession (session_getOfflineId (api p) (searchParams_get request ''shop'')),
             EvRedirectWithExitIframe (searchParams_get request ''shop'')],
            Inl (ThrownResponse
                   (h_redirectWithExitIframe (helpers p) request (searchParams_get request ''shop''))))
      else ([EvLoadSession (session_getOfflineId (api p) (searchParams_get request ''shop'')),
             EvBeginAuth False (searchParams_get request ''shop'')],
            Inl (ThrownResponse
                   (h_beginAuth (helpers p) request False (searchParams_get request ''shop'')))))"
  using assms
  by (simp add: AuthStrategy_ensureInstalledOnShop_def Let_def eff_defs bind_eff_simps
        redirectWithExitIframe_def beginAuth_def)

lemma AuthStrategy_not_installed:
  assumes "req_pathname request \<noteq> auth_patchSessionTokenPath (auth (config p))"
    and "req_pathname request \<noteq> auth_exitIframePath (auth (config p))"
    and "req_pathname request \<noteq> auth_callbackPath (auth (config p))"
    and "req_pathname request \<noteq> auth_path (auth (config p))"
    and "\<not> truthy (getSessionTokenHeader p request)"
    and "truthy (utils_sanitizeShop (api p) (searchParams_get request ''shop''))"
    and "isEmbeddedApp (config p) \<longrightarrow>
           truthy (utils_sanitizeHost (api p) (searchParams_get request ''host''))"
    and "loadSession (sessionStorage (config p))
             (session_getOfflineId (api p) (searchParams_get request ''shop'')) = Inr None"
  shows "AuthStrategy_authenticateAndGetSessionContext p request =
     (if searchParams_get request ''embedded'' = Some ''1''
      then ([EvLoadSession (session_getOfflineId (api p) (searchParams_get request ''shop'')),
             EvRedirectWithExitIframe (searchParams_get request ''shop'')],
            Inl (ThrownResponse
                   (h_redirectWithExitIframe (helpers p) request (searchParams_get request ''shop''))))
      else ([EvLoadSession (session_getOfflineId (api p) (searchParams_get request ''shop'')),
             EvBeginAuth False (searchParams_get request ''shop'')],
            Inl (ThrownResponse
                   (h_beginAuth (helpers p) request False (searchParams_get request ''shop'')))))"
  unfolding AuthStrategy_document_load[OF assms(1-7)]
    AuthStrategy_ensureInstalledOnShop_not_installed[OF assms(8)]
  by (simp add: bind_eff_simps)

lemma AuthCodeFlowStrategy_ensureInstalledOnShop_not_installed:
  assumes "isEmbeddedApp (config p) \<longrightarrow>
             truthy (utils_sanitizeShop (api p) (searchParams_get request ''shop''))
             \<and> truthy (utils_sanitizeHost (api p) (searchParams_get request ''host''))"
    and "AuthCodeFlowStrategy_offlineId p request = (t, Inr (Some offlineId))"
    and "offlineId \<noteq> []"
    and "loadSession (sessionStorage (config p)) offlineId = Inr None"
  shows "AuthCodeFlowStrategy_ensureInstalledOnShop p request =
     (if searchParams_get request ''embedded'' = Some ''1''
      then (t @ t @ [EvLoadSession offlineId,
                     EvRedirectWithExitIframe (searchParams_get request ''shop'')],
            Inl (ThrownResponse
                   (h_redirectWithExitIframe (helpers p) request (searchParams_get request ''shop''))))
      else (t @ t @ [EvLoadSession offlineId,
                     EvBeginAuth False (searchParams_get request ''shop'')],
            Inl (ThrownResponse
                   (h_beginAuth (helpers p) request False (searchParams_get request ''shop'')))))"
  using assms
  by (simp add: AuthCodeFlowStrategy_ensureInstalledOnShop_def Let_def eff_defs bind_eff_simps
        AuthCodeFlowStrategy_validateUrlParams_def AuthCodeFlowStrategy_hasValidOfflineId_def
        AuthCodeFlowStrategy_getOfflineSession_def truthy_def js_String_def
        redirectWithExitIframe_def beginAuth_def)

lemma AuthCodeFlowStrategy_not_installed:
  assumes "req_pathname request \<noteq> auth_path (auth (config p))"
    and "req_pathname request \<noteq> auth_callbackPath (auth (config p))"
    and "\<not> truthy (getSessionTokenHeader p request)"
    and "isEmbeddedApp (config p) \<longrightarrow>
             truthy (utils_sanitizeShop (api p) (searchParams_get request ''shop''))
             \<and> truthy (utils_sanitizeHost (api p) (searchParams_get request ''host''))"
    and "AuthCodeFlowStrategy_offlineId p request = (t, Inr (Some offlineId))"
    and "offlineId \<noteq> []"
    and "loadSession (sessionStorage (config p)) offlineId = Inr None"
  shows "AuthCodeFlowStrategy_respondToOAuthRequests p request =
     (if searchParams_get request ''embedded'' = Some ''1''
      then (t @ t @ [EvLoadSession offlineId,
                     EvRedirectWithExitIframe (searchParams_get request ''shop'')],
            Inl (ThrownResponse
                   (h_redirectWithExitIframe (helpers p) request (searchParams_get request ''shop''))))
      else (t @ t @ [EvLoadSession offlineId,
                     EvBeginAuth False (searchParams_get request ''shop'')],
            Inl (ThrownResponse
                   (h_beginAuth (helpers p) request False (searchParams_get request ''shop'')))))"
  using assms(1-3)
  by (simp add: AuthCodeFlowStrategy_respondToOAuthRequests_def Let_def
        AuthCodeFlowStrategy_ensureInstalledOnShop_not_installed[OF assms(4-7)] bind_eff_simps)

text \<open>
  \<open>ensureCORSHeaders\<close> changes nothing of a response but the three headers it
  sets.
\<close>

lemma ensureCORSHeaders_preserves:
  "status (AuthStrategy_ensureCORSHeaders p request r) = status r"
  "statusText (AuthStrategy_ensureCORSHeaders p request r) = statusText r"
  "resp_body (AuthStrategy_ensureCORSHeaders p request r) = resp_body r"
  "k \<noteq> ''Access-Control-Allow-Origin'' \<Longrightarrow> k \<noteq> ''Access-Control-Allow-Headers'' \<Longrightarrow>
   k \<noteq> ''Access-Control-Expose-Headers'' \<Longrightarrow>
   headers_get (resp_headers (AuthStrategy_ensureCORSHeaders p request r)) k
     = headers_get (resp_headers r) k"
  by (simp_all add: AuthStrategy_ensureCORSHeaders_def headers_get_def headers_set_def
        update_conv')

text \<open>
  Claim C4 as stated fails: a document load of an embedded app that the bot
  detector lets through, that names a shop without stored offline session and
  carries no \<open>host\<close> parameter, ends with the redirect to the login path, in both
  classes; it is the response \<open>authenticateAdmin\<close> throws.
\<close>

theorem not_installed_login_counterexample:
  "req_method ex_request_no_host = ''GET''
   \<and> h_rejectBotRequest (helpers ex_params) ex_request_no_host = None
   \<and> getSessionTokenHeader ex_params ex_request_no_host = None
   \<and> loadSession (sessionStorage (config ex_params))
        (session_getOfflineId (api ex_params) (searchParams_get ex_request_no_host ''shop''))
       = Inr None
   \<and> AuthStrategy_authenticateAdmin ex_params ex_request_no_host
       = ([EvRejectBotRequest],
          Inl (ThrownResponse
            \<lparr>status = 302, statusText = [],
             resp_headers =
               [(''Location'', ''/auth/login''),
                (''Access-Control-Allow-Origin'', ''*''),
                (''Access-Control-Allow-Headers'', ''Authorization''),
                (''Access-Control-Expose-Headers'',
                 ''X-Shopify-API-Request-Failure-Reauthorize-Url'')],
             resp_body = None\<rparr>))
   \<and> AuthCodeFlowStrategy_respondToOAuthRequests ex_params ex_request_no_host
       = ([], Inl (ThrownResponse
            \<lparr>status = 302, statusText = [], resp_headers = [(''Location'', ''/auth/login'')],
             resp_body = None\<rparr>))
   \<and> h_beginAuth (helpers ex_params) ex_request_no_host False (Some ''test.myshopify.com'')
       = \<lparr>status = 302, statusText = [],
          resp_headers = [(''Location'', ''https://test.myshopify.com/admin/oauth/authorize'')],
          resp_body = None\<rparr>"
proof -
  have ctx_run: "AuthStrategy_authenticateAndGetSessionContext ex_params ex_request_no_host
       = ([], Inl (ThrownResponse (redirect ''/auth/login'' [])))"
    by (simp add: ex_defs getSessionTokenHeader_def searchParams_get_def truthy_def
          AuthStrategy_authenticateAndGetSessionContext_def AuthStrategy_validateUrlParams_def
          Let_def eff_defs bind_eff_simps)
  have admin: "AuthStrategy_authenticateAdmin ex_params ex_request_no_host
       = ([EvRejectBotRequest],
          Inl (ThrownResponse
            \<lparr>status = 302, statusText = [],
             resp_headers =
               [(''Location'', ''/auth/login''),
                (''Access-Control-Allow-Origin'', ''*''),
                (''Access-Control-Allow-Headers'', ''Authorization''),
                (''Access-Control-Expose-Headers'',
                 ''X-Shopify-API-Request-Failure-Reauthorize-Url'')],
             resp_body = None\<rparr>))"
    by (subst authenticateAdmin_response[OF _ _ ctx_run])
       (simp_all add: ex_defs AuthStrategy_ensureCORSHeaders_def headers_get_def headers_set_def
          redirect_def)
  show ?thesis
    unfolding admin
    by (simp add: ex_defs getSessionTokenHeader_def searchParams_get_def truthy_def
          AuthCodeFlowStrategy_respondToOAuthRequests_def
          AuthCodeFlowStrategy_ensureInstalledOnShop_def AuthCodeFlowStrategy_validateUrlParams_def
          Let_def eff_defs bind_eff_simps redirect_def headers_set_def)
qed

text \<open>
  Claim C4, as amended. For a document load (no session token header, none of
  the auth paths) that the bot detector lets through, whose method is not
  \<open>OPTIONS\<close>, whose \<open>shop\<close> and, for an embedded app, \<open>host\<close> parameters pass
  validation and whose shop has no stored offline session, \<open>authenticateAdmin\<close>
  ends before a session context is returned: it throws the exit-iframe redirect
  when the request carries \<open>embedded=1\<close> and the begin-flow redirect otherwise,
  with the CORS headers set on it when the request is cross-origin. The entry
  point of \<open>AuthCodeFlowStrategy\<close>, \<open>respondToOAuthRequests\<close>, throws the same two
  redirects for a request whose parameters pass its validation and whose
  offline id is found.
\<close>

theorem not_installed_ends_in_redirect:
  "(h_rejectBotRequest (helpers p) request = None
      \<and> req_method request \<noteq> ''OPTIONS''
      \<and> req_pathname request \<noteq> auth_patchSessionTokenPath (auth (config p))
      \<and> req_pathname request \<noteq> auth_exitIframePath (auth (config p))
      \<and> req_pathname request \<noteq> auth_callbackPath (auth (config p))
      \<and> req_pathname request \<noteq> auth_path (auth (config p))
      \<and> \<not> truthy (getSessionTokenHeader p request)
      \<and> truthy (utils_sanitizeShop (api p) (searchParams_get request ''shop''))
      \<and> (isEmbeddedApp (config p) \<longrightarrow>
            truthy (utils_sanitizeHost (api p) (searchParams_get request ''host'')))
      \<and> loadSession (sessionStorage (config p))
            (session_getOfflineId (api p) (searchParams_get request ''shop'')) = Inr None \<longrightarrow>
      AuthStrategy_authenticateAdmin p request =
        (if searchParams_get request ''embedded'' = Some ''1''
         then ([EvRejectBotRequest,
                EvLoadSession (session_getOfflineId (api p) (searchParams_get request ''shop'')),
                EvRedirectWithExitIframe (searchParams_get request ''shop'')],
               Inl (ThrownResponse
                      (AuthStrategy_ensureCORSHeaders p request
                         (h_redirectWithExitIframe (helpers p) request
                            (searchParams_get request ''shop'')))))
         else ([EvRejectBotRequest,
                EvLoadSession (session_getOfflineId (api p) (searchParams_get request ''shop'')),
                EvBeginAuth False (searchParams_get request ''shop'')],
               Inl (ThrownResponse
                      (AuthStrategy_ensureCORSHeaders p request
                         (h_beginAuth (helpers p) request False
                            (searchParams_get request ''shop'')))))))
   \<and> (req_pathname request \<noteq> auth_path (auth (config p))
      \<and> req_pathname request \<noteq> auth_callbackPath (auth (config p))
      \<and> \<not> truthy (getSessionTokenHeader p request)
      \<and> (isEmbeddedApp (config p) \<longrightarrow>
            truthy (utils_sanitizeShop (api p) (searchParams_get request ''shop''))
            \<and> truthy (utils_sanitizeHost (api p) (searchParams_get request ''host'')))
      \<and> AuthCodeFlowStrategy_offlineId p request = (t, Inr (Some offlineId))
      \<and> offlineId \<noteq> []
      \<and> loadSession (sessionStorage (config p)) offlineId = Inr None \<longrightarrow>
      AuthCodeFlowStrategy_respondToOAuthRequests p request =
        (if searchParams_get request ''embedded'' = Some ''1''
         then (t @ t @ [EvLoadSession offlineId,
                        EvRedirectWithExitIframe (searchParams_get request ''shop'')],
               Inl (ThrownResponse
                      (h_redirectWithExitIframe (helpers p) request
                         (searchParams_get request ''shop''))))
         else (t @ t @ [EvLoadSession offlineId,
                        EvBeginAuth False (searchParams_get request ''shop'')],
               Inl (ThrownResponse
                      (h_beginAuth (helpers p) request False (searchParams_get request ''shop''))))))"
proof (intro conjI impI)
  assume h: "h_rejectBotRequest (helpers p) request = None
      \<and> req_method request \<noteq> ''OPTIONS''
      \<and> req_pathname request \<noteq> auth_patchSessionTokenPath (auth (config p))
      \<and> req_pathname request \<noteq> auth_exitIframePath (auth (config p))
      \<and> req_pathname request \<noteq> auth_callbackPath (auth (config p))
      \<and> req_pathname request \<noteq> auth_path (auth (config p))
      \<and> \<not> truthy (getSessionTokenHeader p request)
      \<and> truthy (utils_sanitizeShop (api p) (searchParams_get request ''shop''))
      \<and> (isEmbeddedApp (config p) \<longrightarrow>
            truthy (utils_sanitizeHost (api p) (searchParams_get request ''host'')))
      \<and> loadSession (sessionStorage (config p))
            (session_getOfflineId (api p) (searchParams_get request ''shop'')) = Inr None"
  then have bot: "h_rejectBotRequest (helpers p) request = None"
    and not_options: "req_method request \<noteq> ''OPTIONS''" by simp_all
  from h have eq: "AuthStrategy_authenticateAndGetSessionContext p request =
        (if searchParams_get request ''embedded'' = Some ''1''
         then ([EvLoadSession (session_getOfflineId (api p) (searchParams_get request ''shop'')),
                EvRedirectWithExitIframe (searchParams_get request ''shop'')],
               Inl (ThrownResponse
                      (h_redirectWithExitIframe (helpers p) request
                         (searchParams_get request ''shop''))))
         else ([EvLoadSession (session_getOfflineId (api p) (searchParams_get request ''shop'')),
                EvBeginAuth False (searchParams_get request ''shop'')],
               Inl (ThrownResponse
                      (h_beginAuth (helpers p) request False (searchParams_get request ''shop'')))))"
    by (intro AuthStrategy_not_installed) simp_all
  show "AuthStrategy_authenticateAdmin p request =
        (if searchParams_get request ''embedded'' = Some ''1''
         then ([EvRejectBotRequest,
                EvLoadSession (session_getOfflineId (api p) (searchParams_get request ''shop'')),
                EvRedirectWithExitIframe (searchParams_get request ''shop'')],
               Inl (ThrownResponse
                      (AuthStrategy_ensureCORSHeaders p request
                         (h_redirectWithExitIframe (helpers p) request
                            (searchParams_get request ''shop'')))))
         else ([EvRejectBotRequest,
                EvLoadSession (session_getOfflineId (api p) (searchParams_get request ''shop'')),
                EvBeginAuth False (searchParams_get request ''shop'')],
               Inl (ThrownResponse
                      (AuthStrategy_ensureCORSHeaders p request
                         (h_beginAuth (helpers p) request False
                            (searchParams_get request ''shop''))))))"
  proof (cases "searchParams_get request ''embedded'' = Some ''1''")
    case True
    with eq authenticateAdmin_response[OF bot not_options, of _
        "h_redirectWithExitIframe (helpers p) request (searchParams_get request ''shop'')"]
    show ?thesis by simp
  next
    case False
    with eq authenticateAdmin_response[OF bot not_options, of _
        "h_beginAuth (helpers p) request False (searchParams_get request ''shop'')"]
    show ?thesis by simp
  qed
next
  assume h: "req_pathname request \<noteq> auth_path (auth (config p))
      \<and> req_pathname request \<noteq> auth_callbackPath (auth (config p))
      \<and> \<not> truthy (getSessionTokenHeader p request)
      \<and> (isEmbeddedApp (config p) \<longrightarrow>
            truthy (utils_sanitizeShop (api p) (searchParams_get request ''shop''))
            \<and> truthy (utils_sanitizeHost (api p) (searchParams_get request ''host'')))
      \<and> AuthCodeFlowStrategy_offlineId p request = (t, Inr (Some offlineId))
      \<and> offlineId \<noteq> []
      \<and> loadSession (sessionStorage (config p)) offlineId = Inr None"
  then show "AuthCodeFlowStrategy_respondToOAuthRequests p request =
        (if searchParams_get request ''embedded'' = Some ''1''
         then (t @ t @ [EvLoadSession offlineId,
                        EvRedirectWithExitIframe (searchParams_get request ''shop'')],
               Inl (ThrownResponse
                      (h_redirectWithExitIframe (helpers p) request
                         (searchParams_get request ''shop''))))
         else (t @ t @ [EvLoadSession offlineId,
                        EvBeginAuth False (searchParams_get request ''shop'')],
               Inl (ThrownResponse
                      (h_beginAuth (helpers p) request False (searchParams_get request ''shop'')))))"
    by (intro AuthCodeFlowStrategy_not_installed) simp_all
qed

text \<open>Claim C4, as amended, with and without \<open>embedded=1\<close>.\<close>

theorem not_installed_ends_in_redirect_witness:
  "AuthStrategy_authenticateAdmin ex_params
     (ex_document_request ''/app'' [(''embedded'', ''1'')])
     = ([EvRejectBotRequest, EvLoadSession ''offline_test.myshopify.com'',
         EvRedirectWithExitIframe (Some ''test.myshopify.com'')],
        Inl (ThrownResponse
          \<lparr>status = 302, statusText = [],
           resp_headers =
             [(''Location'', ''/auth/exit-iframe''),
              (''Access-Control-Allow-Origin'', ''*''),
              (''Access-Control-Allow-Headers'', ''Authorization''),
              (''Access-Control-Expose-Headers'',
               ''X-Shopify-API-Request-Failure-Reauthorize-Url'')],
           resp_body = None\<rparr>))
   \<and> AuthStrategy_authenticateAdmin ex_params (ex_document_request ''/app'' [])
     = ([EvRejectBotRequest, EvLoadSession ''offline_test.myshopify.com'',
         EvBeginAuth False (Some ''test.myshopify.com'')],
        Inl (ThrownResponse
          \<lparr>status = 302, statusText = [],
           resp_headers =
             [(''Location'', ''https://test.myshopify.com/admin/oauth/authorize''),
              (''Access-Control-Allow-Origin'', ''*''),
              (''Access-Control-Allow-Headers'', ''Authorization''),
              (''Access-Control-Expose-Headers'',
               ''X-Shopify-API-Request-Failure-Reauthorize-Url'')],
           resp_body = None\<rparr>))
   \<and> AuthCodeFlowStrategy_respondToOAuthRequests ex_params
     (ex_document_request ''/app'' [(''embedded'', ''1'')])
     = ([EvLoadSession ''offline_test.myshopify.com'',
         EvRedirectWithExitIframe (Some ''test.myshopify.com'')],
        Inl (ThrownResponse (redirect ''/auth/exit-iframe'' [])))
   \<and> AuthCodeFlowStrategy_respondToOAuthRequests ex_params (ex_document_request ''/app'' [])
     = ([EvLoadSession ''offline_test.myshopify.com'',
         EvBeginAuth False (Some ''test.myshopify.com'')],
        Inl (ThrownResponse (redirect ''https://test.myshopify.com/admin/oauth/authorize'' [])))"
  using not_installed_ends_in_redirect
          [where p=ex_params and request="ex_document_request ''/app'' [(''embedded'', ''1'')]"
             and t="[]" and offlineId="''offline_test.myshopify.com''"]
        not_installed_ends_in_redirect
          [where p=ex_params and request="ex_document_request ''/app'' []"
             and t="[]" and offlineId="''offline_test.myshopify.com''"]
  by (simp add: ex_params_def ex_api_def ex_config_def ex_helpers_def ex_storage_def ex_auth_def
        ex_document_request_def getSessionTokenHeader_def AuthStrategy_ensureCORSHeaders_def
        headers_get_def headers_set_def redirect_def
        searchParams_get_def js_String_def truthy_def AuthCodeFlowStrategy_offlineId_def eff_defs)

subsection \<open>CORS headers and \<open>OPTIONS\<close> requests\<close>

text \<open>
  The responses that do get the headers: for a request whose \<open>Origin\<close> header
  differs from the app URL, that the bot detector lets through and whose method
  is not \<open>OPTIONS\<close>, every \<open>Response\<close> thrown by \<open>authenticateAdmin\<close> comes from the
  \<open>try\<close> around \<open>authenticateAndGetSessionContext\<close>, whose \<open>catch\<close> sets
  \<open>Access-Control-Allow-Origin: *\<close>, \<open>Access-Control-Allow-Headers: Authorization\<close>
  and \<open>Access-Control-Expose-Headers\<close> on it.
\<close>

lemma cors_headers_inside_try:
  assumes "headers_get (req_headers request) ''Origin'' \<noteq> Some (appUrl (config p))"
    and "h_rejectBotRequest (helpers p) request = None"
    and "req_method request \<noteq> ''OPTIONS''"
    and "snd (AuthStrategy_authenticateAdmin p request) = Inl (ThrownResponse response)"
  shows "headers_get (resp_headers response) ''Access-Control-Allow-Origin'' = Some ''*''
       \<and> headers_get (resp_headers response) ''Access-Control-Allow-Headers'' = Some ''Authorization''
       \<and> headers_get (resp_headers response) ''Access-Control-Expose-Headers''
           = Some (REAUTH_URL_HEADER (config p))"
proof -
  from authenticateAdmin_thrown[OF assms(2,3,4)]
  obtain r where "response = AuthStrategy_ensureCORSHeaders p request r"
    by (auto simp: is_Response_def)
  with ensureCORSHeaders_headers[OF assms(1)] show ?thesis by simp
qed

text \<open>
  Claim C5. The code breaks the claim at a cross-origin \<open>OPTIONS\<close> preflight:
  \<open>respondToOptionsRequest\<close> throws its 204 response before the \<open>try\<close> whose
  \<open>catch\<close> sets the CORS headers, so the terminal response of \<open>authenticateAdmin\<close>
  carries \<open>Access-Control-Max-Age\<close> and none of \<open>Access-Control-Allow-Origin\<close>,
  \<open>Access-Control-Allow-Headers\<close> and \<open>Access-Control-Expose-Headers\<close>.
\<close>

theorem options_preflight_lacks_cors_headers:
  "req_method ex_options_request = ''OPTIONS''
   \<and> headers_get (req_headers ex_options_request) ''Origin'' = Some ''https://admin.shopify.com''
   \<and> appUrl (config ex_params) = ''https://app.example''
   \<and> AuthStrategy_authenticateAdmin ex_params ex_options_request
       = ([EvRejectBotRequest],
          Inl (ThrownResponse \<lparr>status = 204, statusText = [],
                                resp_headers = [(''Access-Control-Max-Age'', ''7200'')],
                                resp_body = None\<rparr>))
   \<and> headers_get [(''Access-Control-Max-Age'', ''7200'')] ''Access-Control-Allow-Origin'' = None
   \<and> headers_get [(''Access-Control-Max-Age'', ''7200'')] ''Access-Control-Allow-Headers'' = None
   \<and> headers_get [(''Access-Control-Max-Age'', ''7200'')] ''Access-Control-Expose-Headers'' = None"
  by (simp add: authenticateAdmin_OPTIONS ex_params_def ex_helpers_def ex_config_def
        ex_options_request_def headers_get_def)

text \<open>
  Claim C6 as stated fails: the bot detector runs first, and an \<open>OPTIONS\<close>
  request it rejects ends with the detector's 410 response, not with a 204.
\<close>

theorem options_before_bot_detector_counterexample:
  "req_method ex_options_request = ''OPTIONS''
   \<and> AuthStrategy_authenticateAdmin ex_params_bot ex_options_request =
     ([EvRejectBotRequest],
      Inl (ThrownResponse \<lparr>status = 410, statusText = ''Gone'', resp_headers = [],
                            resp_body = None\<rparr>))"
  by (simp add: authenticateAdmin_OPTIONS ex_options_request_def ex_params_bot_def
        ex_params_def ex_helpers_def ex_bot_response_def)

text \<open>
  Claim C6, as amended. For a request with method \<open>OPTIONS\<close>, \<open>authenticateAdmin\<close>
  calls the bot detector and nothing else: when the detector rejects, its
  response is thrown; otherwise the 204 response with
  \<open>Access-Control-Max-Age: 7200\<close> is thrown, before any other authentication work.
\<close>

theorem options_request_after_bot_detector:
  assumes "req_method request = ''OPTIONS''"
  shows "AuthStrategy_authenticateAdmin p request =
     ([EvRejectBotRequest],
      Inl (ThrownResponse
        (case h_rejectBotRequest (helpers p) request of
           Some r \<Rightarrow> r
         | None \<Rightarrow> \<lparr>status = 204, statusText = [],
                     resp_headers = [(''Access-Control-Max-Age'', ''7200'')],
                     resp_body = None\<rparr>)))"
  using assms by (rule authenticateAdmin_OPTIONS)

text \<open>Claim C6, as amended, at a detector that lets the request through.\<close>

theorem options_request_after_bot_detector_witness:
  "AuthStrategy_authenticateAdmin ex_params ex_options_request =
     ([EvRejectBotRequest],
      Inl (ThrownResponse \<lparr>status = 204, statusText = [],
                            resp_headers = [(''Access-Control-Max-Age'', ''7200'')],
                            resp_body = None\<rparr>))"
  using options_request_after_bot_detector[of ex_options_request ex_params]
  by (simp add: ex_options_request_def ex_params_def ex_helpers_def)

end
